theory Spec2Isabelle
  imports Complex_Main "HOL-Library.List_Lexorder"
begin

section \<open>Texts\<close>

text \<open>
  A Python \<^verbatim>\<open>str\<close> is the list of its code points; the order of lists is the order in
  which SQLite compares texts. \<open>str\<close> turns a literal of the program into such a list.
\<close>

type_synonym pystr = "int list"

definition str :: "string \<Rightarrow> pystr" where
  "str x = map of_char x"

text \<open>\<^verbatim>\<open>str.isspace\<close> on one code point, and \<^verbatim>\<open>str.strip()\<close>.\<close>

definition isspace :: "int \<Rightarrow> bool" where
  "isspace c =
     ((9 \<le> c \<and> c \<le> 13) \<or> (28 \<le> c \<and> c \<le> 32) \<or> c = 133 \<or> c = 160 \<or> c = 5760 \<or>
      (8192 \<le> c \<and> c \<le> 8202) \<or> c = 8232 \<or> c = 8233 \<or> c = 8239 \<or> c = 8287 \<or>
      c = 12288)"

definition strip :: "pystr \<Rightarrow> pystr" where
  "strip s = rev (dropWhile isspace (rev (dropWhile isspace s)))"

text \<open>
  A text with a surrogate code point (\<^verbatim>\<open>U+D800\<close> to \<^verbatim>\<open>U+DFFF\<close>) has no UTF-8 form:
  binding it to a statement of SQLite raises \<^verbatim>\<open>UnicodeEncodeError\<close>.
\<close>

definition utf8_encodable :: "pystr \<Rightarrow> bool" where
  "utf8_encodable s = list_all (\<lambda>c. c < 55296 \<or> 57343 < c) s"

text \<open>
  Two tables of the Python library are parameters: what \<^verbatim>\<open>float\<close> makes of a text
  (\<open>None\<close> is its \<^verbatim>\<open>ValueError\<close>), and the decimal value of a code point outside ASCII
  (\<open>None\<close> when it is no decimal digit).
\<close>

datatype pyfloat = Finite rat | PosInf | NegInf | NaN

record library =
  float_of_str :: "pystr \<Rightarrow> pyfloat option"
  to_decimal :: "int \<Rightarrow> int option"

text \<open>
  The value of a decimal digit, as \<^verbatim>\<open>\d\<close> of a regular expression and \<^verbatim>\<open>int\<close> read
  it: \<open>None\<close> for a code point that is no decimal digit.
\<close>

definition decimal_value :: "library \<Rightarrow> int \<Rightarrow> int option" where
  "decimal_value lib c =
     (if 48 \<le> c \<and> c \<le> 57 then Some (c - 48)
      else if c < 128 then None
      else (case to_decimal lib c of
              None \<Rightarrow> None
            | Some d \<Rightarrow> if 0 \<le> d \<and> d \<le> 9 then Some d else None))"

section \<open>The calendar\<close>

text \<open>
  A day is its proleptic Gregorian ordinal (\<^verbatim>\<open>date.toordinal()\<close>, day 1 is
  0001-01-01); \<^verbatim>\<open>timedelta(days=k)\<close> is then subtraction of \<open>k\<close>.
\<close>

definition is_leap :: "int \<Rightarrow> bool" where
  "is_leap y = (y mod 4 = 0 \<and> (y mod 400 = 0 \<or> y mod 100 \<noteq> 0))"

definition DAYS_IN_MONTH :: "int list" where
  "DAYS_IN_MONTH = [- 1, 31, 28, 31, 30, 31, 30, 31, 31, 30, 31, 30, 31]"

definition DAYS_BEFORE_MONTH :: "int list" where
  "DAYS_BEFORE_MONTH = [- 1, 0, 31, 59, 90, 120, 151, 181, 212, 243, 273, 304, 334]"

definition days_in_month :: "int \<Rightarrow> int \<Rightarrow> int" where
  "days_in_month y m =
     (if m = 2 \<and> is_leap y then 29 else DAYS_IN_MONTH ! nat m)"

definition days_before_year :: "int \<Rightarrow> int" where
  "days_before_year y = (y - 1) * 365 + (y - 1) div 4 - (y - 1) div 100 + (y - 1) div 400"

definition days_before_month :: "int \<Rightarrow> int \<Rightarrow> int" where
  "days_before_month y m =
     DAYS_BEFORE_MONTH ! nat m + (if m > 2 \<and> is_leap y then 1 else 0)"

text \<open>
  \<^verbatim>\<open>date(y, m, d).toordinal()\<close>; \<open>None\<close> is the \<^verbatim>\<open>ValueError\<close> of a triple that names
  no day.
\<close>

definition ymd_to_ordinal :: "int \<Rightarrow> int \<Rightarrow> int \<Rightarrow> int option" where
  "ymd_to_ordinal y m d =
     (if 1 \<le> y \<and> y \<le> 9999 \<and> 1 \<le> m \<and> m \<le> 12 \<and> 1 \<le> d \<and> d \<le> days_in_month y m
      then Some (days_before_year y + days_before_month y m + d) else None)"

text \<open>\<^verbatim>\<open>_ord2ymd\<close> of the library: the year, month and day of an ordinal.\<close>

definition ord2ymd :: "int \<Rightarrow> int \<times> int \<times> int" where
  "ord2ymd ordinal =
     (let n0 = ordinal - 1;
          n400 = n0 div 146097; r400 = n0 mod 146097;
          n100 = r400 div 36524; r100 = r400 mod 36524;
          n4 = r100 div 1461; r4 = r100 mod 1461;
          n1 = r4 div 365; n = r4 mod 365;
          year = n400 * 400 + 1 + n100 * 100 + n4 * 4 + n1
      in if n1 = 4 \<or> n100 = 4 then (year - 1, 12, 31)
         else
           let leapyear = (n1 = 3 \<and> (n100 = 3 \<or> n4 \<noteq> 24));
               month = (n + 50) div 32;
               preceding = DAYS_BEFORE_MONTH ! nat month
                             + (if month > 2 \<and> leapyear then 1 else 0)
           in if preceding > n
              then (year, month - 1,
                    n - (preceding - (DAYS_IN_MONTH ! nat (month - 1)
                                        + (if month - 1 = 2 \<and> leapyear then 1 else 0))) + 1)
              else (year, month, n - preceding + 1))"

text \<open>
  \<^verbatim>\<open>strftime('%Y-%m-%d')\<close> for a day of the years 1 to 9999, as the C library of Linux
  prints it: month and day with two digits, the year without padding.
\<close>

definition two_digits :: "int \<Rightarrow> pystr" where
  "two_digits n = [48 + n div 10 mod 10, 48 + n mod 10]"

definition year_digits :: "int \<Rightarrow> pystr" where
  "year_digits y =
     dropWhile (\<lambda>c. c = 48) [48 + y div 1000 mod 10, 48 + y div 100 mod 10, 48 + y div 10 mod 10]
     @ [48 + y mod 10]"

definition strftime_ymd :: "int \<Rightarrow> pystr" where
  "strftime_ymd ordinal =
     (case ord2ymd ordinal of
        (y, m, d) \<Rightarrow> year_digits y @ str ''-'' @ two_digits m @ str ''-'' @ two_digits d)"

text \<open>
  \<^verbatim>\<open>strftime('%a')\<close> in the C locale. Python's \<^verbatim>\<open>date.weekday()\<close> is
  \<^verbatim>\<open>(toordinal() + 6) % 7\<close> with Monday as day 0.
\<close>

definition weekday :: "int \<Rightarrow> nat" where
  "weekday d = nat ((d + 6) mod 7)"

definition strftime_a :: "int \<Rightarrow> pystr" where
  "strftime_a d =
     map str [''Mon'', ''Tue'', ''Wed'', ''Thu'', ''Fri'', ''Sat'', ''Sun''] ! weekday d"

subsection \<open>\<^verbatim>\<open>datetime.strptime(s, '%Y-%m-%d')\<close>\<close>

text \<open>
  The format compiles to the regular expression
  \<^verbatim>\<open>(\d\d\d\d)-(1[0-2]|0[1-9]|[1-9])-(3[0-1]|[1-2]\d|0[1-9]|[1-9]| [1-9])\<close>, which must
  match the whole text; \<^verbatim>\<open>\d\<close> is any decimal digit, the classes are ASCII. The three
  groups, read by \<^verbatim>\<open>int\<close>, must then name a day of the calendar. The result is the
  ordinal of that day, \<open>None\<close> is \<^verbatim>\<open>ValueError\<close>.
\<close>

definition digit_in :: "int \<Rightarrow> int \<Rightarrow> int \<Rightarrow> bool" where
  "digit_in c lo hi = (48 + lo \<le> c \<and> c \<le> 48 + hi)"

fun parse_month :: "pystr \<Rightarrow> (int \<times> pystr) option" where
  "parse_month (a # b # c # r) =
     (if a = 49 \<and> digit_in b 0 2 \<and> c = 45 then Some (10 + (b - 48), r)
      else if a = 48 \<and> digit_in b 1 9 \<and> c = 45 then Some (b - 48, r)
      else if digit_in a 1 9 \<and> b = 45 then Some (a - 48, c # r)
      else None)"
| "parse_month [a, b] = (if digit_in a 1 9 \<and> b = 45 then Some (a - 48, []) else None)"
| "parse_month r = None"

fun parse_day :: "library \<Rightarrow> pystr \<Rightarrow> int option" where
  "parse_day lib [a, b] =
     (if a = 51 \<and> digit_in b 0 1 then Some (30 + (b - 48))
      else if digit_in a 1 2
      then map_option (\<lambda>d. 10 * (a - 48) + d) (decimal_value lib b)
      else if a = 48 \<and> digit_in b 1 9 then Some (b - 48)
      else if a = 32 \<and> digit_in b 1 9 then Some (b - 48)
      else None)"
| "parse_day lib [a] = (if digit_in a 1 9 then Some (a - 48) else None)"
| "parse_day lib r = None"

fun strptime_ymd :: "library \<Rightarrow> pystr \<Rightarrow> int option" where
  "strptime_ymd lib (y1 # y2 # y3 # y4 # dash # r) =
     (case (decimal_value lib y1, decimal_value lib y2, decimal_value lib y3,
            decimal_value lib y4) of
        (Some d1, Some d2, Some d3, Some d4) \<Rightarrow>
          if dash = 45
          then (case parse_month r of
                  None \<Rightarrow> None
                | Some (m, r') \<Rightarrow>
                    (case parse_day lib r' of
                       None \<Rightarrow> None
                     | Some d \<Rightarrow> ymd_to_ordinal (1000 * d1 + 100 * d2 + 10 * d3 + d4) m d))
          else None
      | _ \<Rightarrow> None)"
| "strptime_ymd lib s = None"

section \<open>The store\<close>

text \<open>
  The application keeps two SQLite tables, \<^verbatim>\<open>sessions\<close> and \<^verbatim>\<open>session_photos\<close>
  (\<^verbatim>\<open>init_db\<close>). A table is the list of its rows; a row is a record with one field
  per column. Nullable columns are options. The column \<^verbatim>\<open>session_date\<close> holds the text
  of the request as it came; no text that \<^verbatim>\<open>strptime\<close> accepts reads as a number, so
  the column keeps it as a text.
\<close>

record session_row =
  id_s :: int
  school_name :: pystr
  session_type :: pystr
  location :: pystr
  activator :: pystr
  year_group :: pystr
  male_participants :: int
  female_participants :: int
  teacher_feedback :: "pystr option"
  session_date :: pystr
  session_duration :: "int option"
  date_created :: pystr
  latitude :: "pyfloat option"
  longitude :: "pyfloat option"

record photo_row =
  id_p :: int
  session_id :: int
  filename :: pystr
  original_filename :: pystr
  file_path :: pystr
  file_size :: int
  upload_date :: pystr

text \<open>
  \<open>sessions_seq\<close> and \<open>photos_seq\<close> are the rows of \<^verbatim>\<open>sqlite_sequence\<close>: the largest
  key an \<^verbatim>\<open>AUTOINCREMENT\<close> column has ever handed out.
\<close>

record database =
  sessions :: "session_row list"
  session_photos :: "photo_row list"
  sessions_seq :: int
  photos_seq :: int

text \<open>The sample rows that \<^verbatim>\<open>init_db\<close> inserts into an empty table.\<close>

definition sample_row ::
  "int \<Rightarrow> string \<Rightarrow> string \<Rightarrow> string \<Rightarrow> string \<Rightarrow> string \<Rightarrow> int \<Rightarrow> int \<Rightarrow> string \<Rightarrow>
   string \<Rightarrow> int \<Rightarrow> string \<Rightarrow> rat \<Rightarrow> rat \<Rightarrow> session_row" where
  "sample_row i sn st loc act yg m f fb sd dur dc lat lng =
     \<lparr>id_s = i, school_name = str sn, session_type = str st, location = str loc,
      activator = str act, year_group = str yg, male_participants = m,
      female_participants = f, teacher_feedback = Some (str fb), session_date = str sd,
      session_duration = Some dur, date_created = str dc, latitude = Some (Finite lat),
      longitude = Some (Finite lng)\<rparr>"

definition sample_sessions :: "session_row list" where
  "sample_sessions =
     [sample_row 1 ''Auckland Primary School'' ''School Festive Day'' ''School Hall''
        ''John Smith'' ''Year 5-6'' 8 9 ''Great engagement from students'' ''2025-01-16'' 60
        ''2025-01-16 10:00:00'' (- 368485 / 10000) (1747633 / 10000),
      sample_row 2 ''Wellington High School'' ''Community Hub Practice'' ''Gymnasium''
        ''Sarah Johnson'' ''Year 7-8'' 65 62 ''Excellent participation'' ''2025-01-16'' 90
        ''2025-01-16 14:00:00'' (- 412865 / 10000) (1747762 / 10000),
      sample_row 3 ''Christchurch College'' ''Girl's Cricket Programme'' ''Sports Field''
        ''Mike Wilson'' ''Year 9-10'' 15 13 ''Good skill development'' ''2025-01-16'' 45
        ''2025-01-16 16:00:00'' (- 435321 / 10000) (1726362 / 10000),
      sample_row 4 ''Hamilton Elementary'' ''Kiwi Cricket Skills Session''
        ''Community Center'' ''Lisa Brown'' ''Year 3-4'' 12 15 ''Very enthusiastic group''
        ''2025-01-15'' 75 ''2025-01-15 11:00:00'' (- 377870 / 10000) (1752793 / 10000),
      sample_row 5 ''Dunedin Academy'' ''In2Cricket Taster'' ''Main Hall'' ''David Lee''
        ''Year 6-7'' 20 18 ''Positive feedback'' ''2025-01-15'' 120 ''2025-01-15 13:00:00''
        (- 458788 / 10000) (1705028 / 10000)]"

definition init_db :: database where
  "init_db = \<lparr>sessions = sample_sessions, session_photos = [], sessions_seq = 5,
              photos_seq = 0\<rparr>"

section \<open>Statistics: \<^verbatim>\<open>get_stats\<close>\<close>

text \<open>
  \<^verbatim>\<open>SELECT SUM(e) FROM t WHERE c\<close> yields NULL when no row matches, and Python's
  \<^verbatim>\<open>x or 0\<close> replaces NULL (and zero) by \<open>0\<close>.
\<close>

definition sql_sum :: "int list \<Rightarrow> int option" where
  "sql_sum xs = (if xs = [] then None else Some (sum_list xs))"

definition or_zero :: "int option \<Rightarrow> int" where
  "or_zero v = (case v of None \<Rightarrow> 0 | Some n \<Rightarrow> if n = 0 then 0 else n)"

record day_stat =
  date :: pystr
  participants :: int
  day :: pystr

record stats =
  recent_participants :: int
  daily_stats :: "day_stat list"

text \<open>
  The two queries compare the stored text with the text of a day:
  \<^verbatim>\<open>WHERE session_date >= ?\<close> and \<^verbatim>\<open>WHERE session_date = ?\<close>.
\<close>

definition participants_since :: "database \<Rightarrow> pystr \<Rightarrow> int option" where
  "participants_since db d =
     sql_sum [male_participants s + female_participants s.
              s \<leftarrow> sessions db, session_date s \<ge> d]"

definition participants_on :: "database \<Rightarrow> pystr \<Rightarrow> int option" where
  "participants_on db d =
     sql_sum [male_participants s + female_participants s.
              s \<leftarrow> sessions db, session_date s = d]"

text \<open>
  The handler reads \<^verbatim>\<open>datetime.now()\<close> once for the recent total and twice in each
  round of the loop, for the date and for the label; \<open>clock k\<close> is the day of its \<open>k\<close>-th
  reading.
\<close>

definition daily_entry :: "database \<Rightarrow> (nat \<Rightarrow> int) \<Rightarrow> nat \<Rightarrow> day_stat" where
  "daily_entry db clock i =
     (let d = strftime_ymd (clock (2 * i + 1) - (6 - int i)) in
      \<lparr>date = d, participants = or_zero (participants_on db d),
       day = strftime_a (clock (2 * i + 2) - (6 - int i))\<rparr>)"

definition get_stats :: "database \<Rightarrow> (nat \<Rightarrow> int) \<Rightarrow> stats" where
  "get_stats db clock =
     (let seven_days_ago = strftime_ymd (clock 0 - 7);
          recent = or_zero (participants_since db seven_days_ago);
          daily = map (daily_entry db clock) [0..<7]
      in \<lparr>recent_participants = recent, daily_stats = daily\<rparr>)"

text \<open>
  The specification's reading of the two figures: a record counts for the day that its
  \<^verbatim>\<open>session_date\<close> names, the recent total runs over the seven days that end at
  \<open>as_of_date\<close>, and a daily entry over one day.
\<close>

definition dated_within :: "library \<Rightarrow> int \<Rightarrow> int \<Rightarrow> session_row \<Rightarrow> bool" where
  "dated_within lib lo hi s =
     (case strptime_ymd lib (session_date s) of
        None \<Rightarrow> False
      | Some d \<Rightarrow> lo \<le> d \<and> d \<le> hi)"

definition spec_recent_total :: "library \<Rightarrow> session_row list \<Rightarrow> int \<Rightarrow> int" where
  "spec_recent_total lib rows as_of_date =
     sum_list [male_participants s + female_participants s.
               s \<leftarrow> rows, dated_within lib (as_of_date - 6) as_of_date s]"

definition spec_daily_participants :: "library \<Rightarrow> session_row list \<Rightarrow> int \<Rightarrow> int" where
  "spec_daily_participants lib rows d =
     sum_list [male_participants s + female_participants s.
               s \<leftarrow> rows, dated_within lib d d s]"

section \<open>Requests that read and change the store\<close>

text \<open>
  Uploaded photos live in the directory \<^verbatim>\<open>uploads/photos\<close>. The disk is a map from a
  path to the size in bytes of the file stored there. A request handler takes the world
  (store and disk) and returns its response and the world it leaves.
\<close>

record world =
  store :: database
  disk :: "pystr \<rightharpoonup> int"

text \<open>
  The exceptions that leave a function. \<open>SqlError\<close> stands for what the \<^verbatim>\<open>INSERT\<close>
  does with a value that the column type of the model cannot hold.
\<close>

datatype py_exn =
    AttributeError
  | TypeError
  | ValueError
  | OverflowError
  | KeyError
  | UnicodeEncodeError
  | SqlError

text \<open>An entry of \<^verbatim>\<open>uploaded_photos\<close>: stored name, original name, size.\<close>

datatype uploaded = Uploaded pystr pystr int

text \<open>
  The JSON responses. \<open>Ok_message m\<close> is \<^verbatim>\<open>{'success': True, 'message': m}\<close>;
  \<open>Ok_session m i\<close> adds \<^verbatim>\<open>'session_id': i\<close>; \<open>Ok_photos ps\<close> is the answer of an upload,
  whose message counts \<open>ps\<close>; \<open>Failure c es\<close> is
  \<^verbatim>\<open>{'success': False, 'errors': es}\<close> with HTTP status \<open>c\<close>; \<open>Server_error e\<close> is
  status 500 with the single message \<^verbatim>\<open>'Server error: ' + str(e)\<close>.
\<close>

datatype response =
    Ok_message pystr
  | Ok_session pystr int
  | Ok_photos "uploaded list"
  | Failure int "pystr list"
  | Server_error py_exn

subsection \<open>\<^verbatim>\<open>get_sessions\<close>\<close>

text \<open>
  \<^verbatim>\<open>FROM sessions s LEFT JOIN session_photos sp ON s.id = sp.session_id\<close>: a session
  without photos is kept once, with NULL photo columns.
\<close>

definition join_rows ::
  "session_row \<Rightarrow> photo_row list \<Rightarrow> (session_row \<times> photo_row option) list" where
  "join_rows s ps =
     (case [p \<leftarrow> ps. session_id p = id_s s] of
        [] \<Rightarrow> [(s, None)]
      | m # ms \<Rightarrow> map (\<lambda>p. (s, Some p)) (m # ms))"

definition left_join_photos ::
  "session_row list \<Rightarrow> photo_row list \<Rightarrow> (session_row \<times> photo_row option) list" where
  "left_join_photos ss ps = concat (map (\<lambda>s. join_rows s ps) ss)"

text \<open>
  \<^verbatim>\<open>GROUP BY s.id\<close>: one group per key, in the order of first appearance. A group is
  returned with the session columns of its first row, which are the bare columns of the
  \<^verbatim>\<open>SELECT\<close>.
\<close>

fun group_by_id ::
  "(session_row \<times> photo_row option) list \<Rightarrow>
   (session_row \<times> (session_row \<times> photo_row option) list) list" where
  "group_by_id [] = []"
| "group_by_id (r # rs) =
     (fst r, r # [x \<leftarrow> rs. id_s (fst x) = id_s (fst r)])
       # group_by_id [x \<leftarrow> rs. id_s (fst x) \<noteq> id_s (fst r)]"

text \<open>\<^verbatim>\<open>COUNT(sp.id)\<close> counts the rows of a group whose photo key is not NULL.\<close>

definition count_sp_id :: "(session_row \<times> photo_row option) list \<Rightarrow> int" where
  "count_sp_id g = int (length [r \<leftarrow> g. snd r \<noteq> None])"

text \<open>
  \<^verbatim>\<open>ORDER BY s.session_date DESC, s.date_created DESC\<close>, by insertion; SQLite leaves
  the order of ties open.
\<close>

definition listed_before :: "session_row \<Rightarrow> session_row \<Rightarrow> bool" where
  "listed_before a b =
     (session_date b < session_date a \<or>
      (session_date a = session_date b \<and> date_created b < date_created a))"

fun insert_listed ::
  "session_row \<times> 'a \<Rightarrow> (session_row \<times> 'a) list \<Rightarrow> (session_row \<times> 'a) list" where
  "insert_listed x [] = [x]"
| "insert_listed x (y # ys) =
     (if listed_before (fst y) (fst x) then y # insert_listed x ys else x # y # ys)"

definition order_by_date :: "(session_row \<times> 'a) list \<Rightarrow> (session_row \<times> 'a) list" where
  "order_by_date rows = foldr insert_listed rows []"

text \<open>
  An element of the JSON array that \<^verbatim>\<open>get_sessions\<close> returns: the fourteen columns
  and the two derived fields.
\<close>

record listed_session =
  columns :: session_row
  photo_count :: int
  total_participants :: int

definition get_sessions :: "database \<Rightarrow> listed_session list" where
  "get_sessions db =
     map (\<lambda>(s, g). \<lparr>columns = s, photo_count = count_sp_id g,
                     total_participants = male_participants s + female_participants s\<rparr>)
       (order_by_date (group_by_id (left_join_photos (sessions db) (session_photos db))))"

subsection \<open>\<^verbatim>\<open>delete_session\<close>\<close>

text \<open>
  \<^verbatim>\<open>os.path.exists\<close> followed by \<^verbatim>\<open>os.remove\<close>. A removal that the operating
  system refuses (the \<^verbatim>\<open>OSError\<close> that the handler swallows) is not modelled: a file
  that exists is removed.
\<close>

definition os_remove_if_exists :: "pystr \<Rightarrow> (pystr \<rightharpoonup> int) \<Rightarrow> (pystr \<rightharpoonup> int)" where
  "os_remove_if_exists path d = (if d path \<noteq> None then d(path := None) else d)"

text \<open>
  \<^verbatim>\<open>sqlite3.connect\<close> opens a connection on which SQLite does not enforce foreign keys:
  \<^verbatim>\<open>PRAGMA foreign_keys\<close> is off unless a connection turns it on, and no handler of the
  application does.
\<close>

definition connect_foreign_keys :: bool where
  "connect_foreign_keys = False"

text \<open>
  \<^verbatim>\<open>DELETE FROM sessions WHERE id = ?\<close>. The clause \<^verbatim>\<open>ON DELETE CASCADE\<close> of
  \<^verbatim>\<open>session_photos.session_id\<close> deletes the photos of a deleted session on a connection
  that enforces foreign keys, and does nothing on one that does not.
\<close>

definition sql_delete_session :: "bool \<Rightarrow> int \<Rightarrow> database \<Rightarrow> database" where
  "sql_delete_session foreign_keys sid db =
     db\<lparr>sessions := [s \<leftarrow> sessions db. id_s s \<noteq> sid],
        session_photos :=
          (if foreign_keys \<and> sid \<in> set (map id_s (sessions db))
           then [p \<leftarrow> session_photos db. session_id p \<noteq> sid]
           else session_photos db)\<rparr>"

definition delete_session :: "world \<Rightarrow> int \<Rightarrow> response \<times> world" where
  "delete_session w sid =
     (let photos = [file_path p. p \<leftarrow> session_photos (store w), session_id p = sid];
          disk' = fold os_remove_if_exists photos (disk w);
          store' = sql_delete_session connect_foreign_keys sid (store w)
      in (Ok_message (str ''Session deleted successfully''),
          \<lparr>store = store', disk = disk'\<rparr>))"

subsection \<open>\<^verbatim>\<open>upload_photos\<close>\<close>

definition UPLOAD_FOLDER :: string where
  "UPLOAD_FOLDER = ''uploads/photos''"

definition ALLOWED_EXTENSIONS :: "string list" where
  "ALLOWED_EXTENSIONS = [''png'', ''jpg'', ''jpeg'', ''gif'']"

definition MAX_FILE_SIZE :: int where
  "MAX_FILE_SIZE = 5 * 1024 * 1024"

text \<open>
  \<^verbatim>\<open>str.lower\<close> as the test of the extension sees it. It moves \<^verbatim>\<open>A-Z\<close> up by 32; a
  character outside ASCII becomes a text that holds a character outside ASCII, or the
  letter \<^verbatim>\<open>k\<close> (for the Kelvin sign), and no allowed extension holds either. So the test
  fails for an extension with such a character whatever its lower case is, and the model
  leaves the character as it is.
\<close>

definition lower_char :: "int \<Rightarrow> int" where
  "lower_char c = (if 65 \<le> c \<and> c \<le> 90 then c + 32 else c)"

definition lower :: "pystr \<Rightarrow> pystr" where
  "lower s = map lower_char s"

text \<open>\<^verbatim>\<open>s.rsplit('.', 1)[1]\<close> for a text that holds a dot: what follows the last dot.\<close>

definition rsplit_dot_1 :: "pystr \<Rightarrow> pystr" where
  "rsplit_dot_1 s = rev (takeWhile (\<lambda>c. c \<noteq> 46) (rev s))"

definition allowed_file :: "pystr \<Rightarrow> bool" where
  "allowed_file name =
     (46 \<in> set name \<and> lower (rsplit_dot_1 name) \<in> set (map str ALLOWED_EXTENSIONS))"

text \<open>\<^verbatim>\<open>os.path.join(UPLOAD_FOLDER, name)\<close> for a name that is not absolute.\<close>

definition os_path_join :: "pystr \<Rightarrow> pystr \<Rightarrow> pystr" where
  "os_path_join dir name = dir @ str ''/'' @ name"

text \<open>
  An \<^verbatim>\<open>AUTOINCREMENT\<close> key is one more than the largest key the table has ever held.
\<close>

definition next_key :: "int \<Rightarrow> int list \<Rightarrow> int" where
  "next_key seq ids = fold max ids seq + 1"

definition insert_photo ::
  "int \<Rightarrow> pystr \<Rightarrow> pystr \<Rightarrow> pystr \<Rightarrow> int \<Rightarrow> pystr \<Rightarrow> database \<Rightarrow> database" where
  "insert_photo sid unique original path nbytes now db =
     (let k = next_key (photos_seq db) (map id_p (session_photos db)) in
      db\<lparr>session_photos := session_photos db @
            [\<lparr>id_p = k, session_id = sid, filename = unique, original_filename = original,
              file_path = path, file_size = nbytes, upload_date = now\<rparr>],
         photos_seq := k\<rparr>)"

text \<open>
  An uploaded file (\<^verbatim>\<open>FileStorage\<close>): its name and the number of its bytes. The names
  come out of a UTF-8 decoder and hold no surrogate.
\<close>

datatype file_storage = FileStorage (fs_filename: pystr) (fs_size: int)

text \<open>
  The loop over the files of one request. \<open>uuid k\<close> is the hexadecimal text of the
  \<open>k\<close>-th \<^verbatim>\<open>uuid.uuid4()\<close> of the request and \<open>now\<close> is \<^verbatim>\<open>CURRENT_TIMESTAMP\<close>. The
  loop ends with \<open>Inl\<close> of the error messages when it returns early, and with \<open>Inr\<close> of
  the uncommitted store and the list \<^verbatim>\<open>uploaded_photos\<close> when it runs to its end;
  either way it returns the disk it leaves.
\<close>

fun save_files ::
  "(nat \<Rightarrow> pystr) \<Rightarrow> pystr \<Rightarrow> int \<Rightarrow> nat \<Rightarrow> file_storage list \<Rightarrow> database \<Rightarrow>
   (pystr \<rightharpoonup> int) \<Rightarrow> uploaded list \<Rightarrow>
   (pystr list + database \<times> uploaded list) \<times> (pystr \<rightharpoonup> int)" where
  "save_files uuid now sid k [] cur d ups = (Inr (cur, ups), d)"
| "save_files uuid now sid k (f # fs) cur d ups =
     (if fs_filename f = [] then save_files uuid now sid k fs cur d ups
      else if \<not> allowed_file (fs_filename f)
      then (Inl [str ''File type not allowed for '' @ fs_filename f], d)
      else
        let file_extension = lower (rsplit_dot_1 (fs_filename f));
            unique_filename = uuid k @ str ''.'' @ file_extension;
            path = os_path_join (str UPLOAD_FOLDER) unique_filename;
            d1 = d(path \<mapsto> fs_size f);
            nbytes = fs_size f
        in if nbytes > MAX_FILE_SIZE
           then (Inl [str ''File '' @ fs_filename f @ str '' is too large (max 5MB)''],
                 d1(path := None))
           else save_files uuid now sid (Suc k) fs
                  (insert_photo sid unique_filename (fs_filename f) path nbytes now cur)
                  d1 (ups @ [Uploaded unique_filename (fs_filename f) nbytes]))"

text \<open>
  \<open>files\<close> is \<^verbatim>\<open>request.files.getlist('photos')\<close>, or \<open>None\<close> when the request has no
  part of that name. An early return leaves the connection without a commit, so the
  rows inserted so far are rolled back; the files written so far stay on the disk.
\<close>

definition upload_photos ::
  "(nat \<Rightarrow> pystr) \<Rightarrow> pystr \<Rightarrow> world \<Rightarrow> int \<Rightarrow> file_storage list option \<Rightarrow>
   response \<times> world" where
  "upload_photos uuid now w sid files =
     (if [s \<leftarrow> sessions (store w). id_s s = sid] = []
      then (Failure 404 [str ''Session not found''], w)
      else case files of
        None \<Rightarrow> (Failure 400 [str ''No photos provided''], w)
      | Some fs \<Rightarrow>
          (case save_files uuid now sid 0 fs (store w) (disk w) [] of
             (Inl errs, d) \<Rightarrow> (Failure 400 errs, \<lparr>store = store w, disk = d\<rparr>)
           | (Inr (db', ups), d) \<Rightarrow> (Ok_photos ups, \<lparr>store = db', disk = d\<rparr>)))"

section \<open>Validation: \<^verbatim>\<open>validate_session_data\<close>\<close>

subsection \<open>Python values\<close>

text \<open>
  The body of a request is JSON; \<^verbatim>\<open>request.json\<close> turns it into Python values. A
  dict is an association list that is read with \<open>map_of\<close>.
\<close>

datatype pyval =
    PNone
  | PBool bool
  | PInt int
  | PFloat pyfloat
  | PStr pystr
  | PList "pyval list"
  | PDict "(pystr \<times> pyval) list"

type_synonym py_dict = "(pystr \<times> pyval) list"

text \<open>\<^verbatim>\<open>data.get(k)\<close> and \<^verbatim>\<open>data.get(k, default)\<close> for a key \<open>k\<close> of the program.\<close>

definition dict_get :: "py_dict \<Rightarrow> string \<Rightarrow> pyval" where
  "dict_get data k = (case map_of data (str k) of None \<Rightarrow> PNone | Some v \<Rightarrow> v)"

definition dict_get_default :: "py_dict \<Rightarrow> string \<Rightarrow> pyval \<Rightarrow> pyval" where
  "dict_get_default data k dflt = (case map_of data (str k) of None \<Rightarrow> dflt | Some v \<Rightarrow> v)"

text \<open>The truth value of a Python value, as \<^verbatim>\<open>if v\<close> and \<^verbatim>\<open>not v\<close> read it.\<close>

fun truthy :: "pyval \<Rightarrow> bool" where
  "truthy PNone = False"
| "truthy (PBool b) = b"
| "truthy (PInt n) = (n \<noteq> 0)"
| "truthy (PFloat f) = (f \<noteq> Finite 0)"
| "truthy (PStr s) = (s \<noteq> [])"
| "truthy (PList xs) = (xs \<noteq> [])"
| "truthy (PDict d) = (d \<noteq> [])"

text \<open>
  \<^verbatim>\<open>str(v).strip() == ''\<close>. The text of \<^verbatim>\<open>None\<close>, of a boolean, of a number, of a
  list and of a dict starts with a character that is not white space, so only a string
  can be blank.
\<close>

fun str_is_blank :: "pyval \<Rightarrow> bool" where
  "str_is_blank (PStr s) = (strip s = [])"
| "str_is_blank v = False"

text \<open>
  \<^verbatim>\<open>int(v)\<close> on a text. The text is first brought to ASCII: a code point below 127
  stays, white space above becomes a blank, a decimal digit above becomes its ASCII
  digit, anything else a question mark. Then the white space of C (codes 9 to 13, and
  32) is skipped at both ends, and what remains must be an optional sign and decimal
  digits, single underscores allowed between digits. A text of more than 4300 digits
  is refused.
\<close>

definition to_ascii :: "library \<Rightarrow> int \<Rightarrow> int" where
  "to_ascii lib c =
     (if c < 127 then c
      else if isspace c then 32
      else (case decimal_value lib c of None \<Rightarrow> 63 | Some d \<Rightarrow> 48 + d))"

definition c_isspace :: "int \<Rightarrow> bool" where
  "c_isspace c = ((9 \<le> c \<and> c \<le> 13) \<or> c = 32)"

definition is_digit :: "int \<Rightarrow> bool" where
  "is_digit c = (48 \<le> c \<and> c \<le> 57)"

fun digits_value :: "int \<Rightarrow> bool \<Rightarrow> pystr \<Rightarrow> int option" where
  "digits_value acc after_underscore [] = (if after_underscore then None else Some acc)"
| "digits_value acc after_underscore (c # cs) =
     (if is_digit c then digits_value (10 * acc + (c - 48)) False cs
      else if c = 95 \<and> \<not> after_underscore then digits_value acc True cs
      else None)"

definition max_str_digits :: int where
  "max_str_digits = 4300"

definition int_literal :: "pystr \<Rightarrow> int option" where
  "int_literal s =
     (case s of
        [] \<Rightarrow> None
      | c # cs \<Rightarrow>
          if is_digit c \<and> int (length (filter is_digit s)) \<le> max_str_digits
          then digits_value (c - 48) False cs else None)"

definition int_of_str :: "library \<Rightarrow> pystr \<Rightarrow> int option" where
  "int_of_str lib s =
     (case rev (dropWhile c_isspace (rev (dropWhile c_isspace (map (to_ascii lib) s)))) of
        [] \<Rightarrow> None
      | c # cs \<Rightarrow>
          if c = 45 then map_option uminus (int_literal cs)
          else if c = 43 then int_literal cs
          else int_literal (c # cs))"

definition truncate :: "rat \<Rightarrow> int" where
  "truncate r = (if 0 \<le> r then \<lfloor>r\<rfloor> else \<lceil>r\<rceil>)"

fun py_int :: "library \<Rightarrow> pyval \<Rightarrow> py_exn + int" where
  "py_int lib PNone = Inl TypeError"
| "py_int lib (PBool b) = Inr (if b then 1 else 0)"
| "py_int lib (PInt n) = Inr n"
| "py_int lib (PFloat (Finite r)) = Inr (truncate r)"
| "py_int lib (PFloat NaN) = Inl ValueError"
| "py_int lib (PFloat PosInf) = Inl OverflowError"
| "py_int lib (PFloat NegInf) = Inl OverflowError"
| "py_int lib (PStr s) = (case int_of_str lib s of None \<Rightarrow> Inl ValueError | Some n \<Rightarrow> Inr n)"
| "py_int lib (PList xs) = Inl TypeError"
| "py_int lib (PDict d) = Inl TypeError"

text \<open>
  \<^verbatim>\<open>float(v)\<close>. A float is a rational number, an infinity or a NaN; rounding is not
  modelled. An integer beyond the range of a double raises \<^verbatim>\<open>OverflowError\<close>.
\<close>

fun py_float :: "library \<Rightarrow> pyval \<Rightarrow> py_exn + pyfloat" where
  "py_float lib PNone = Inl TypeError"
| "py_float lib (PBool b) = Inr (Finite (if b then 1 else 0))"
| "py_float lib (PInt n) =
     (if 2 ^ 1024 - 2 ^ 970 \<le> \<bar>n\<bar> then Inl OverflowError else Inr (Finite (of_int n)))"
| "py_float lib (PFloat f) = Inr f"
| "py_float lib (PStr s) =
     (case float_of_str lib s of None \<Rightarrow> Inl ValueError | Some f \<Rightarrow> Inr f)"
| "py_float lib (PList xs) = Inl TypeError"
| "py_float lib (PDict d) = Inl TypeError"

text \<open>\<^verbatim>\<open>f < r\<close> and \<^verbatim>\<open>f > r\<close> for a float \<open>f\<close> and a number \<open>r\<close>; a NaN compares false.\<close>

fun float_less :: "pyfloat \<Rightarrow> rat \<Rightarrow> bool" where
  "float_less (Finite x) r = (x < r)"
| "float_less NegInf r = True"
| "float_less PosInf r = False"
| "float_less NaN r = False"

fun float_greater :: "pyfloat \<Rightarrow> rat \<Rightarrow> bool" where
  "float_greater (Finite x) r = (r < x)"
| "float_greater PosInf r = True"
| "float_greater NegInf r = False"
| "float_greater NaN r = False"

text \<open>\<^verbatim>\<open>len(v)\<close>; a dict counts its keys.\<close>

fun py_len :: "pyval \<Rightarrow> py_exn + int" where
  "py_len (PStr s) = Inr (int (length s))"
| "py_len (PList xs) = Inr (int (length xs))"
| "py_len (PDict d) = Inr (int (length (remdups (map fst d))))"
| "py_len v = Inl TypeError"

subsection \<open>The rules\<close>

text \<open>
  \<^verbatim>\<open>s.replace('_', ' ')\<close> and \<^verbatim>\<open>str.title()\<close> on the names of the fields, which are
  ASCII: the first letter of a run of letters in upper case, the others in lower case.
\<close>

definition replace_underscores :: "string \<Rightarrow> string" where
  "replace_underscores s = map (\<lambda>c. if c = CHR ''_'' then CHR '' '' else c) s"

definition is_ascii_upper :: "char \<Rightarrow> bool" where
  "is_ascii_upper c = (let n = (of_char c :: nat) in 65 \<le> n \<and> n \<le> 90)"

definition is_ascii_lower :: "char \<Rightarrow> bool" where
  "is_ascii_lower c = (let n = (of_char c :: nat) in 97 \<le> n \<and> n \<le> 122)"

definition ascii_upper :: "char \<Rightarrow> char" where
  "ascii_upper c = (if is_ascii_lower c then char_of ((of_char c :: nat) - 32) else c)"

definition ascii_lower :: "char \<Rightarrow> char" where
  "ascii_lower c = (if is_ascii_upper c then char_of ((of_char c :: nat) + 32) else c)"

fun title_from :: "bool \<Rightarrow> string \<Rightarrow> string" where
  "title_from in_word [] = []"
| "title_from in_word (c # cs) =
     (if is_ascii_upper c \<or> is_ascii_lower c
      then (if in_word then ascii_lower c else ascii_upper c) # title_from True cs
      else c # title_from False cs)"

definition title :: "string \<Rightarrow> string" where
  "title s = title_from False s"

definition required_fields :: "string list" where
  "required_fields =
     [''school_name'', ''session_type'', ''location'', ''activator'', ''year_group'',
      ''male_participants'', ''female_participants'', ''session_date'',
      ''session_duration'']"

text \<open>\<^verbatim>\<open>not data.get(field) or str(data.get(field)).strip() == ''\<close>.\<close>

definition is_missing :: "pyval \<Rightarrow> bool" where
  "is_missing v = (if truthy v then str_is_blank v else True)"

definition required_message :: "string \<Rightarrow> pystr" where
  "required_message field = str (title (replace_underscores field) @ '' is required'')"

definition required_errors :: "py_dict \<Rightarrow> pystr list" where
  "required_errors data =
     [required_message field. field \<leftarrow> required_fields, is_missing (dict_get data field)]"

text \<open>
  A rule yields the messages it appends, or the exception that leaves the function. The
  rules run in order: the first exception ends the run, otherwise the messages are
  appended in order.
\<close>

fun run_checks :: "(py_exn + pystr list) list \<Rightarrow> py_exn + pystr list" where
  "run_checks [] = Inr []"
| "run_checks (c # cs) =
     (case c of
        Inl e \<Rightarrow> Inl e
      | Inr xs \<Rightarrow> (case run_checks cs of Inl e \<Rightarrow> Inl e | Inr ys \<Rightarrow> Inr (xs @ ys)))"

text \<open>
  The rules of a text field: \<^verbatim>\<open>if data.get(f):\<close> followed by tests of
  \<^verbatim>\<open>data[f].strip()\<close>. Only a string has \<^verbatim>\<open>strip\<close>.
\<close>

definition text_errors :: "py_dict \<Rightarrow> string \<Rightarrow> (pystr \<Rightarrow> pystr list) \<Rightarrow> py_exn + pystr list" where
  "text_errors data field rules =
     (let v = dict_get data field in
      if truthy v
      then (case v of PStr s \<Rightarrow> Inr (rules (strip s)) | _ \<Rightarrow> Inl AttributeError)
      else Inr [])"

definition length_rules :: "string \<Rightarrow> int \<Rightarrow> pystr \<Rightarrow> pystr list" where
  "length_rules label longest t =
     (if int (length t) < 2 then [str (label @ '' must be at least 2 characters long'')]
      else [])
     @ (if int (length t) > longest
        then [str (label @ '' must be less than ''
                   @ (if longest = 100 then ''100'' else ''50'') @ '' characters'')]
        else [])"

text \<open>
  \<^verbatim>\<open>re.match(r'^[a-zA-Z\s\-\.]+$', t)\<close>; \<^verbatim>\<open>\s\<close> is the white space of
  \<^verbatim>\<open>str.isspace\<close>.
\<close>

definition activator_char :: "int \<Rightarrow> bool" where
  "activator_char c =
     ((65 \<le> c \<and> c \<le> 90) \<or> (97 \<le> c \<and> c \<le> 122) \<or> isspace c \<or> c = 45 \<or> c = 46)"

definition activator_match :: "pystr \<Rightarrow> bool" where
  "activator_match t = (t \<noteq> [] \<and> list_all activator_char t)"

definition activator_rules :: "pystr \<Rightarrow> pystr list" where
  "activator_rules t =
     length_rules ''Activator name'' 50 t
     @ (if activator_match t then []
        else [str ''Activator name can only contain letters, spaces, hyphens, and periods''])"

definition valid_year_groups :: "string list" where
  "valid_year_groups =
     [''Year 1-2'', ''Year 3-4'', ''Year 5-6'', ''Year 7-8'', ''Year 9-10'', ''Year 11-13'',
      ''Mixed'']"

definition year_group_errors :: "py_dict \<Rightarrow> pystr list" where
  "year_group_errors data =
     (let v = dict_get data ''year_group'' in
      if truthy v \<and> v \<notin> set (map (\<lambda>g. PStr (str g)) valid_year_groups)
      then [str ''Please select a valid year group''] else [])"

text \<open>\<^verbatim>\<open>except (ValueError, TypeError)\<close>.\<close>

definition caught :: "py_exn \<Rightarrow> bool" where
  "caught e = (e = ValueError \<or> e = TypeError)"

definition count_errors :: "library \<Rightarrow> py_dict \<Rightarrow> string \<Rightarrow> string \<Rightarrow> py_exn + pystr list" where
  "count_errors lib data field label =
     (case py_int lib (dict_get_default data field (PInt 0)) of
        Inr n \<Rightarrow>
          Inr ((if n < 0 then [str (label @ '' cannot be negative'')] else [])
               @ (if n > 1000 then [str (label @ '' seems too high (max 1000)'')] else []))
      | Inl e \<Rightarrow> if caught e then Inr [str (label @ '' must be a valid number'')] else Inl e)"

definition total_errors :: "library \<Rightarrow> py_dict \<Rightarrow> py_exn + pystr list" where
  "total_errors lib data =
     (case py_int lib (dict_get_default data ''male_participants'' (PInt 0)) of
        Inl e \<Rightarrow> if caught e then Inr [] else Inl e
      | Inr m \<Rightarrow>
          (case py_int lib (dict_get_default data ''female_participants'' (PInt 0)) of
             Inl e \<Rightarrow> if caught e then Inr [] else Inl e
           | Inr f \<Rightarrow>
               Inr ((if m + f = 0 then [str ''Total participants must be greater than 0'']
                     else [])
                    @ (if m + f > 2000
                       then [str ''Total participants seems too high (max 2000)'']
                       else []))))"

definition duration_errors :: "library \<Rightarrow> py_dict \<Rightarrow> py_exn + pystr list" where
  "duration_errors lib data =
     (case py_int lib (dict_get_default data ''session_duration'' (PInt 0)) of
        Inr n \<Rightarrow>
          Inr ((if n \<le> 0 then [str ''Session duration must be greater than 0 minutes'']
                else [])
               @ (if n > 480 then [str ''Session duration seems too long (max 8 hours)'']
                  else []))
      | Inl e \<Rightarrow>
          if caught e then Inr [str ''Session duration must be a valid number''] else Inl e)"

text \<open>
  \<open>today\<close> is the day of \<^verbatim>\<open>datetime.now()\<close>. A parsed date is a midnight, so it is
  later than now exactly when its day is later than today; 2020-01-01 is day 737425.
  \<^verbatim>\<open>strptime\<close> raises \<^verbatim>\<open>TypeError\<close> for a value that is not a string, and only
  \<^verbatim>\<open>ValueError\<close> is caught.
\<close>

definition date_errors :: "library \<Rightarrow> int \<Rightarrow> py_dict \<Rightarrow> py_exn + pystr list" where
  "date_errors lib today data =
     (let v = dict_get data ''session_date'' in
      if truthy v
      then (case v of
              PStr s \<Rightarrow>
                (case strptime_ymd lib s of
                   None \<Rightarrow> Inr [str ''Please provide a valid session date'']
                 | Some d \<Rightarrow>
                     Inr ((if d > today then [str ''Session date cannot be in the future'']
                           else [])
                          @ (if d < 737425 then [str ''Session date seems too old'']
                             else [])))
            | _ \<Rightarrow> Inl TypeError)
      else Inr [])"

definition coordinate_errors ::
  "library \<Rightarrow> py_dict \<Rightarrow> string \<Rightarrow> rat \<Rightarrow> string \<Rightarrow> string \<Rightarrow> py_exn + pystr list" where
  "coordinate_errors lib data field bound range_message type_message =
     (let v = dict_get data field in
      if truthy v
      then (case py_float lib v of
              Inr x \<Rightarrow>
                Inr (if float_less x (- bound) \<or> float_greater x bound
                     then [str range_message] else [])
            | Inl e \<Rightarrow> if caught e then Inr [str type_message] else Inl e)
      else Inr [])"

definition feedback_errors :: "py_dict \<Rightarrow> py_exn + pystr list" where
  "feedback_errors data =
     (let v = dict_get data ''teacher_feedback'' in
      if truthy v
      then (case py_len v of
              Inl e \<Rightarrow> Inl e
            | Inr n \<Rightarrow>
                Inr (if n > 1000
                     then [str ''Teacher feedback must be less than 1000 characters'']
                     else []))
      else Inr [])"

definition validate_session_data :: "library \<Rightarrow> int \<Rightarrow> py_dict \<Rightarrow> py_exn + pystr list" where
  "validate_session_data lib today data =
     run_checks
       [Inr (required_errors data),
        text_errors data ''school_name'' (length_rules ''School name'' 100),
        text_errors data ''session_type'' (length_rules ''Session type'' 50),
        text_errors data ''location'' (length_rules ''Location'' 100),
        text_errors data ''activator'' activator_rules,
        Inr (year_group_errors data),
        count_errors lib data ''male_participants'' ''Male participants'',
        count_errors lib data ''female_participants'' ''Female participants'',
        total_errors lib data,
        duration_errors lib data,
        date_errors lib today data,
        coordinate_errors lib data ''latitude'' 90
          ''Latitude must be between -90 and 90'' ''Latitude must be a valid number'',
        coordinate_errors lib data ''longitude'' 180
          ''Longitude must be between -180 and 180'' ''Longitude must be a valid number'',
        feedback_errors data]"

section \<open>Creating a session: \<^verbatim>\<open>create_session\<close>\<close>

definition bind_exn :: "py_exn + 'a \<Rightarrow> ('a \<Rightarrow> py_exn + 'b) \<Rightarrow> py_exn + 'b" where
  "bind_exn m f = (case m of Inl e \<Rightarrow> Inl e | Inr x \<Rightarrow> f x)"

text \<open>\<^verbatim>\<open>data[k].strip()\<close> and \<^verbatim>\<open>int(data[k])\<close>.\<close>

definition item_strip :: "py_dict \<Rightarrow> string \<Rightarrow> py_exn + pystr" where
  "item_strip data k =
     (case map_of data (str k) of
        None \<Rightarrow> Inl KeyError
      | Some (PStr s) \<Rightarrow> Inr (strip s)
      | Some _ \<Rightarrow> Inl AttributeError)"

definition item_int :: "library \<Rightarrow> py_dict \<Rightarrow> string \<Rightarrow> py_exn + int" where
  "item_int lib data k =
     (case map_of data (str k) of None \<Rightarrow> Inl KeyError | Some v \<Rightarrow> py_int lib v)"

text \<open>
  \<^verbatim>\<open>data['year_group']\<close> and \<^verbatim>\<open>data['session_date']\<close> go into the tuple as they
  are. The two columns of the model hold texts; once validation has passed, both values
  are strings.
\<close>

definition item_text :: "py_dict \<Rightarrow> string \<Rightarrow> py_exn + pystr" where
  "item_text data k =
     (case map_of data (str k) of
        None \<Rightarrow> Inl KeyError
      | Some (PStr s) \<Rightarrow> Inr s
      | Some _ \<Rightarrow> Inl SqlError)"

text \<open>
  \<^verbatim>\<open>data.get('teacher_feedback', '').strip() if data.get('teacher_feedback') else None\<close>.
\<close>

definition optional_feedback :: "py_dict \<Rightarrow> py_exn + pystr option" where
  "optional_feedback data =
     (let v = dict_get data ''teacher_feedback'' in
      if truthy v
      then (case v of PStr s \<Rightarrow> Inr (Some (strip s)) | _ \<Rightarrow> Inl AttributeError)
      else Inr None)"

text \<open>
  \<^verbatim>\<open>float(data[k]) if data.get(k) else None\<close>, bound to a \<^verbatim>\<open>REAL\<close> column; SQLite
  stores a NaN as NULL.
\<close>

definition sql_real :: "pyfloat \<Rightarrow> pyfloat option" where
  "sql_real x = (if x = NaN then None else Some x)"

definition optional_float :: "library \<Rightarrow> py_dict \<Rightarrow> string \<Rightarrow> py_exn + pyfloat option" where
  "optional_float lib data k =
     (let v = dict_get data k in
      if truthy v
      then (case py_float lib v of Inl e \<Rightarrow> Inl e | Inr x \<Rightarrow> Inr (sql_real x))
      else Inr None)"

text \<open>
  Binding a text to the statement encodes it in UTF-8.
\<close>

definition bind_text :: "pystr \<Rightarrow> py_exn + pystr" where
  "bind_text s = (if utf8_encodable s then Inr s else Inl UnicodeEncodeError)"

definition bind_optional_text :: "pystr option \<Rightarrow> py_exn + pystr option" where
  "bind_optional_text v =
     (case v of
        None \<Rightarrow> Inr None
      | Some s \<Rightarrow> if utf8_encodable s then Inr (Some s) else Inl UnicodeEncodeError)"

text \<open>
  The tuple of the \<^verbatim>\<open>INSERT\<close> is evaluated from left to right, then its texts are
  bound in the same order; the result is the row that the statement inserts. \<open>key\<close> is
  the \<^verbatim>\<open>AUTOINCREMENT\<close> key and \<open>now\<close> is \<^verbatim>\<open>CURRENT_TIMESTAMP\<close>.
\<close>

definition new_session_row ::
  "library \<Rightarrow> pystr \<Rightarrow> int \<Rightarrow> py_dict \<Rightarrow> py_exn + session_row" where
  "new_session_row lib now key data =
     bind_exn (item_strip data ''school_name'') (\<lambda>sn.
     bind_exn (item_strip data ''session_type'') (\<lambda>st.
     bind_exn (item_strip data ''location'') (\<lambda>loc.
     bind_exn (item_strip data ''activator'') (\<lambda>act.
     bind_exn (item_text data ''year_group'') (\<lambda>yg.
     bind_exn (item_int lib data ''male_participants'') (\<lambda>m.
     bind_exn (item_int lib data ''female_participants'') (\<lambda>f.
     bind_exn (optional_feedback data) (\<lambda>fb.
     bind_exn (item_text data ''session_date'') (\<lambda>sd.
     bind_exn (item_int lib data ''session_duration'') (\<lambda>dur.
     bind_exn (optional_float lib data ''latitude'') (\<lambda>lat.
     bind_exn (optional_float lib data ''longitude'') (\<lambda>lng.
     bind_exn (bind_text sn) (\<lambda>sn'.
     bind_exn (bind_text st) (\<lambda>st'.
     bind_exn (bind_text loc) (\<lambda>loc'.
     bind_exn (bind_text act) (\<lambda>act'.
     bind_exn (bind_text yg) (\<lambda>yg'.
     bind_exn (bind_optional_text fb) (\<lambda>fb'.
     bind_exn (bind_text sd) (\<lambda>sd'.
       Inr \<lparr>id_s = key, school_name = sn', session_type = st', location = loc',
            activator = act', year_group = yg', male_participants = m,
            female_participants = f, teacher_feedback = fb', session_date = sd',
            session_duration = Some dur, date_created = now, latitude = lat,
            longitude = lng\<rparr>)))))))))))))))))))"

text \<open>
  \<open>data\<close> is \<^verbatim>\<open>request.json\<close>, a mapping. Every exception inside the handler ends in
  the answer 500; nothing is committed then.
\<close>

definition create_session ::
  "library \<Rightarrow> int \<Rightarrow> pystr \<Rightarrow> database \<Rightarrow> py_dict \<Rightarrow> response \<times> database" where
  "create_session lib today now db data =
     (if data = [] then (Failure 400 [str ''No data provided''], db)
      else case validate_session_data lib today data of
        Inl e \<Rightarrow> (Server_error e, db)
      | Inr validation_errors \<Rightarrow>
          if validation_errors \<noteq> [] then (Failure 400 validation_errors, db)
          else (case new_session_row lib now
                       (next_key (sessions_seq db) (map id_s (sessions db))) data of
                  Inl e \<Rightarrow> (Server_error e, db)
                | Inr row \<Rightarrow>
                    (Ok_session (str ''Session recorded successfully'') (id_s row),
                     db\<lparr>sessions := sessions db @ [row], sessions_seq := id_s row\<rparr>)))"

text \<open>The optional feedback is absent, empty or a string.\<close>

definition feedback_is_text :: "py_dict \<Rightarrow> bool" where
  "feedback_is_text data =
     (case dict_get data ''teacher_feedback'' of PStr s \<Rightarrow> True | v \<Rightarrow> \<not> truthy v)"

text \<open>None of the texts that the request gives for a text column holds a surrogate.\<close>

definition text_columns :: "string list" where
  "text_columns =
     [''school_name'', ''session_type'', ''location'', ''activator'', ''year_group'',
      ''teacher_feedback'', ''session_date'']"

definition text_is_encodable :: "pyval \<Rightarrow> bool" where
  "text_is_encodable v = (case v of PStr s \<Rightarrow> utf8_encodable s | _ \<Rightarrow> True)"

definition texts_encodable :: "py_dict \<Rightarrow> bool" where
  "texts_encodable data = list_all (\<lambda>k. text_is_encodable (dict_get data k)) text_columns"

section \<open>Examples\<close>

text \<open>
  An instance of the library for the examples: \<open>float\<close> reads the texts of the form
  \<^verbatim>\<open>[-]digits[.digits]\<close>, and the decimal digits outside ASCII are the Arabic-Indic
  and the fullwidth ones.
\<close>

definition example_float_of_str :: "pystr \<Rightarrow> pyfloat option" where
  "example_float_of_str s =
     (let t = strip s;
          negative = (take 1 t = str ''-'');
          u = (if negative then drop 1 t else t);
          whole = takeWhile (\<lambda>c. c \<noteq> 46) u;
          frac = drop (Suc (length whole)) u
      in case int_literal whole of
           None \<Rightarrow> None
         | Some a \<Rightarrow>
             (case (if frac = [] then Some 0 else int_literal frac) of
                None \<Rightarrow> None
              | Some b \<Rightarrow>
                  Some (Finite ((if negative then - 1 else 1)
                     * (of_int a + of_int b / 10 ^ length (filter is_digit frac))))))"

definition example_to_decimal :: "int \<Rightarrow> int option" where
  "example_to_decimal c =
     (if 1632 \<le> c \<and> c \<le> 1641 then Some (c - 1632)
      else if 65296 \<le> c \<and> c \<le> 65305 then Some (c - 65296)
      else None)"

definition example_library :: library where
  "example_library =
     \<lparr>float_of_str = example_float_of_str, to_decimal = example_to_decimal\<rparr>"

text \<open>A request that passes validation on or after 2025-01-16.\<close>

definition valid_example :: py_dict where
  "valid_example =
     [(str ''school_name'', PStr (str ''Karori School'')),
      (str ''session_type'', PStr (str ''In2Cricket Taster'')),
      (str ''location'', PStr (str '' Main Hall '')),
      (str ''activator'', PStr (str ''Ann Lee'')),
      (str ''year_group'', PStr (str ''Mixed'')),
      (str ''male_participants'', PInt 12),
      (str ''female_participants'', PStr (str ''15'')),
      (str ''session_date'', PStr (str ''2025-01-16'')),
      (str ''session_duration'', PInt 60),
      (str ''latitude'', PFloat (Finite (- 41))),
      (str ''longitude'', PStr (str ''174.78'')),
      (str ''teacher_feedback'', PStr (str ''Good''))]"

text \<open>
  The sample sessions of \<^verbatim>\<open>init_db\<close> with three uploaded photos: two of session 1 and
  one of session 4.
\<close>

definition photo_of :: "int \<Rightarrow> int \<Rightarrow> string \<Rightarrow> photo_row" where
  "photo_of i sid name =
     \<lparr>id_p = i, session_id = sid, filename = str name, original_filename = str ''team.png'',
      file_path = os_path_join (str UPLOAD_FOLDER) (str name), file_size = 2048,
      upload_date = str ''2025-01-17 09:30:00''\<rparr>"

definition example_world :: world where
  "example_world =
     \<lparr>store = init_db\<lparr>session_photos :=
                 [photo_of 1 1 ''a1.png'', photo_of 2 1 ''b2.png'', photo_of 3 4 ''c3.png''],
               photos_seq := 3\<rparr>,
      disk = [str ''uploads/photos/a1.png'' \<mapsto> 2048, str ''uploads/photos/b2.png'' \<mapsto> 2048,
              str ''uploads/photos/c3.png'' \<mapsto> 2048]\<rparr>"

definition example_uuid :: "nat \<Rightarrow> pystr" where
  "example_uuid k =
     (if k = 0 then str ''0f8fad5bd9cb469fa16570867728950e''
      else str ''7c9e6679742540de944be07fc1f90ae7'')"

section \<open>Properties of the statistics\<close>

lemma or_zero_sql_sum: "or_zero (sql_sum xs) = sum_list xs"
  by (simp add: or_zero_def sql_sum_def)

lemma upt_7: "[0..<7] = [0, 1, 2, 3, 4, 5, 6::nat]"
  by (simp add: upt_rec)

text \<open>
  The recent total is the sum over the rows whose stored text is not below the text of
  the day seven days before the first reading of the clock.
\<close>

lemma recent_participants_eq:
  "recent_participants (get_stats db clock) =
     sum_list [male_participants s + female_participants s.
               s \<leftarrow> sessions db, strftime_ymd (clock 0 - 7) \<le> session_date s]"
  by (simp add: get_stats_def Let_def participants_since_def or_zero_sql_sum)

text \<open>
  The daily series has seven entries; the \<open>i\<close>-th carries the text of the day \<open>6 - i\<close>
  days before its reading of the clock and the sum over the rows that store exactly
  this text.
\<close>

lemma daily_stats_entries:
  "length (daily_stats (get_stats db clock)) = 7 \<and>
   (\<forall>i < 7. daily_stats (get_stats db clock) ! i =
      \<lparr>date = strftime_ymd (clock (2 * i + 1) - (6 - int i)),
       participants =
         sum_list [male_participants s + female_participants s.
                   s \<leftarrow> sessions db,
                   session_date s = strftime_ymd (clock (2 * i + 1) - (6 - int i))],
       day = strftime_a (clock (2 * i + 2) - (6 - int i))\<rparr>)"
  by (simp add: get_stats_def Let_def daily_entry_def participants_on_def or_zero_sql_sum)

text \<open>
  C1 at a concrete store: the sample rows of \<^verbatim>\<open>init_db\<close>, dated 2025-01-15 and
  2025-01-16, and a clock at 2025-01-23 (day 739274). The bound of the query is the text
  of 2025-01-16, seven days back, so the three sessions of that day are counted: the
  recent total is 172, while no session lies in the seven days from 2025-01-17 to
  2025-01-23 and the seven daily entries are all zero.
\<close>

theorem recent_total_counts_eighth_day:
  "strftime_ymd (739274 - 7) = str ''2025-01-16'' \<and>
   recent_participants (get_stats init_db (\<lambda>k. 739274)) = 172 \<and>
   spec_recent_total example_library (sessions init_db) 739274 = 0 \<and>
   map participants (daily_stats (get_stats init_db (\<lambda>k. 739274))) = [0, 0, 0, 0, 0, 0, 0]"
  by code_simp

text \<open>
  C7 at a concrete store: the request of the valid example with the date written
  \<^verbatim>\<open>2025-2-5\<close>, sent on 2025-02-05 (day 739287). \<^verbatim>\<open>strptime\<close> reads the text as that
  day, validation passes and the text is stored as it came. The daily series of the same
  day compares it with \<^verbatim>\<open>2025-02-05\<close>: the entry of the day reports 0 participants,
  where the session dated that day has 27.
\<close>

theorem daily_stats_miss_unpadded_date:
  "validate_session_data example_library 739287
     ((str ''session_date'', PStr (str ''2025-2-5'')) # valid_example) = Inr [] \<and>
   strptime_ymd example_library (str ''2025-2-5'') = Some 739287 \<and>
   map session_date (sessions (snd (create_session example_library 739287
      (str ''2025-02-05 09:00:00'') init_db
      ((str ''session_date'', PStr (str ''2025-2-5'')) # valid_example))))
     = map str [''2025-01-16'', ''2025-01-16'', ''2025-01-16'', ''2025-01-15'',
                ''2025-01-15'', ''2025-2-5''] \<and>
   map (\<lambda>e. (date e, participants e))
     (daily_stats (get_stats (snd (create_session example_library 739287
        (str ''2025-02-05 09:00:00'') init_db
        ((str ''session_date'', PStr (str ''2025-2-5'')) # valid_example)))
        (\<lambda>k. 739287)))
     = [(str ''2025-01-30'', 0), (str ''2025-01-31'', 0), (str ''2025-02-01'', 0),
        (str ''2025-02-02'', 0), (str ''2025-02-03'', 0), (str ''2025-02-04'', 0),
        (str ''2025-02-05'', 0)] \<and>
   spec_daily_participants example_library
     (sessions (snd (create_session example_library 739287
        (str ''2025-02-05 09:00:00'') init_db
        ((str ''session_date'', PStr (str ''2025-2-5'')) # valid_example)))) 739287 = 27"
  by code_simp

text \<open>
  The same text is not below the text of any day of 2025 that the clock can reach, so
  the session stays in the recent total: here on 2025-02-18 (day 739300), thirteen days
  after its date.
\<close>

lemma recent_total_keeps_unpadded_date:
  "recent_participants (get_stats (snd (create_session example_library 739287
        (str ''2025-02-05 09:00:00'') init_db
        ((str ''session_date'', PStr (str ''2025-2-5'')) # valid_example)))
        (\<lambda>k. 739300)) = 27"
  by code_simp

section \<open>Properties of the requests on the store\<close>

subsection \<open>Listing\<close>

lemma left_join_photos_Cons:
  "left_join_photos (s # ss) ps = join_rows s ps @ left_join_photos ss ps"
  by (simp add: left_join_photos_def join_rows_def)

lemma left_join_photos_Nil: "left_join_photos [] ps = []"
  by (simp add: left_join_photos_def)

lemma fst_join_rows: "x \<in> set (join_rows s ps) \<Longrightarrow> fst x = s"
  by (auto simp: join_rows_def split: list.splits)

lemma join_rows_not_Nil: "join_rows s ps \<noteq> []"
  by (simp add: join_rows_def split: list.splits)

lemma count_join_rows:
  "count_sp_id (join_rows s ps) = int (length [p \<leftarrow> ps. session_id p = id_s s])"
  by (simp add: count_sp_id_def join_rows_def filter_map comp_def split: list.splits)

lemma fst_left_join: "x \<in> set (left_join_photos ss ps) \<Longrightarrow> fst x \<in> set ss"
  by (induction ss) (auto simp: left_join_photos_Nil left_join_photos_Cons dest: fst_join_rows)

lemma filter_left_join:
  "distinct (map id_s ss) \<Longrightarrow> s \<in> set ss \<Longrightarrow>
   [x \<leftarrow> left_join_photos ss ps. id_s (fst x) = id_s s] = join_rows s ps"
proof (induction ss)
  case Nil
  then show ?case by simp
next
  case (Cons a ss)
  have nomatch: "id_s t \<notin> id_s ` set ss \<Longrightarrow> [x \<leftarrow> left_join_photos ss ps. id_s (fst x) = id_s t] = []" for t
    by (force simp: filter_empty_conv dest: fst_left_join)
  have own: "[x \<leftarrow> join_rows t ps. id_s (fst x) = id_s t] = join_rows t ps" for t
    by (auto simp: filter_id_conv dest: fst_join_rows)
  have other: "id_s t \<noteq> id_s u \<Longrightarrow> [x \<leftarrow> join_rows t ps. id_s (fst x) = id_s u] = []" for t u
    by (auto simp: filter_empty_conv dest: fst_join_rows)
  show ?case
  proof (cases "s = a")
    case True
    with Cons.prems show ?thesis
      by (simp add: left_join_photos_Cons own nomatch)
  next
    case False
    with Cons.prems have "s \<in> set ss" "id_s a \<noteq> id_s s" by auto
    with Cons show ?thesis
      by (simp add: left_join_photos_Cons other)
  qed
qed

lemma group_by_id_member:
  "(s, g) \<in> set (group_by_id rows) \<Longrightarrow>
   g = [x \<leftarrow> rows. id_s (fst x) = id_s s] \<and> s \<in> fst ` set rows"
proof (induction rows rule: group_by_id.induct)
  case 1
  then show ?case by simp
next
  case (2 r rs)
  show ?case
  proof (cases "(s, g) = (fst r, r # [x \<leftarrow> rs. id_s (fst x) = id_s (fst r)])")
    case True
    then show ?thesis by auto
  next
    case False
    with "2.prems" have m: "(s, g) \<in> set (group_by_id [x \<leftarrow> rs. id_s (fst x) \<noteq> id_s (fst r)])"
      by auto
    from "2.IH" [OF m] have g: "g = [x \<leftarrow> [x \<leftarrow> rs. id_s (fst x) \<noteq> id_s (fst r)]. id_s (fst x) = id_s s]"
      and s: "s \<in> fst ` set [x \<leftarrow> rs. id_s (fst x) \<noteq> id_s (fst r)]" by simp_all
    from s have ne: "id_s s \<noteq> id_s (fst r)" and s': "s \<in> fst ` set rs" by auto
    have "g = [x \<leftarrow> rs. id_s (fst x) = id_s s]"
      unfolding g filter_filter using ne by (auto intro: filter_cong)
    with ne s' show ?thesis by auto
  qed
qed

lemma set_insert_listed: "set (insert_listed x ys) = insert x (set ys)"
  by (induction ys) auto

lemma set_order_by_date: "set (order_by_date rows) = set rows"
  unfolding order_by_date_def by (induction rows) (simp_all add: set_insert_listed)

lemma get_sessions_member:
  assumes "r \<in> set (get_sessions db)"
  obtains s g where "(s, g) \<in> set (group_by_id (left_join_photos (sessions db) (session_photos db)))"
    and "r = \<lparr>columns = s, photo_count = count_sp_id g,
                     total_participants = male_participants s + female_participants s\<rparr>"
  using assms unfolding get_sessions_def by (auto simp: set_order_by_date)

text \<open>
  C10: in every store whose session keys are distinct (\<^verbatim>\<open>id\<close> is the primary key of
  \<^verbatim>\<open>sessions\<close>), every record that the listing returns carries the columns of a stored
  session, a \<open>total_participants\<close> equal to that record's male plus female participants,
  and a \<open>photo_count\<close> equal to the number of photo rows whose \<open>session_id\<close> is the key
  of that session.
\<close>

theorem get_sessions_derived_fields:
  assumes "distinct (map id_s (sessions db))"
  shows "\<forall>r \<in> set (get_sessions db).
           columns r \<in> set (sessions db) \<and>
           total_participants r
             = male_participants (columns r) + female_participants (columns r) \<and>
           photo_count r
             = int (length [p \<leftarrow> session_photos db. session_id p = id_s (columns r)])"
proof
  fix r
  assume "r \<in> set (get_sessions db)"
  then obtain s g
    where m: "(s, g) \<in> set (group_by_id (left_join_photos (sessions db) (session_photos db)))"
      and r: "r = \<lparr>columns = s, photo_count = count_sp_id g,
                   total_participants = male_participants s + female_participants s\<rparr>"
    by (rule get_sessions_member)
  from group_by_id_member [OF m]
  have g: "g = [x \<leftarrow> left_join_photos (sessions db) (session_photos db).
                id_s (fst x) = id_s s]"
    and "s \<in> fst ` set (left_join_photos (sessions db) (session_photos db))"
    by simp_all
  then have s: "s \<in> set (sessions db)"
    by (auto dest: fst_left_join)
  have "g = join_rows s (session_photos db)"
    unfolding g by (rule filter_left_join [OF assms s])
  then show "columns r \<in> set (sessions db) \<and>
      total_participants r
        = male_participants (columns r) + female_participants (columns r) \<and>
      photo_count r
        = int (length [p \<leftarrow> session_photos db. session_id p = id_s (columns r)])"
    using s by (simp add: r count_join_rows)
qed

lemma distinct_example_world: "distinct (map id_s (sessions (store example_world)))"
  by (simp add: example_world_def init_db_def sample_sessions_def sample_row_def)

lemma get_sessions_example_world:
  "map (\<lambda>r. (id_s (columns r), photo_count r, total_participants r))
     (get_sessions (store example_world))
   = [(3, 0, 28), (2, 0, 127), (1, 2, 17), (5, 0, 38), (4, 1, 27)]"
  by code_simp

theorem get_sessions_derived_fields_witness:
  "distinct (map id_s (sessions (store example_world))) \<and>
   list_all (\<lambda>r. total_participants r
                    = male_participants (columns r) + female_participants (columns r) \<and>
                  photo_count r
                    = int (length [p \<leftarrow> session_photos (store example_world).
                                   session_id p = id_s (columns r)]))
     (get_sessions (store example_world)) \<and>
   map (\<lambda>r. (id_s (columns r), photo_count r, total_participants r))
     (get_sessions (store example_world))
   = [(3, 0, 28), (2, 0, 127), (1, 2, 17), (5, 0, 38), (4, 1, 27)]"
  using get_sessions_derived_fields [OF distinct_example_world]
    distinct_example_world get_sessions_example_world
  by (simp add: list_all_iff)

subsection \<open>Deleting a session\<close>

lemma delete_session_response:
  "fst (delete_session w sid) = Ok_message (str ''Session deleted successfully'')"
  by (simp add: delete_session_def Let_def)

lemma delete_session_removes_row:
  "sid \<notin> id_s ` set (sessions (store (snd (delete_session w sid))))"
  by (auto simp: delete_session_def Let_def sql_delete_session_def)

lemma delete_session_keeps_photo_rows:
  "session_photos (store (snd (delete_session w sid))) = session_photos (store w)"
  by (simp add: delete_session_def Let_def sql_delete_session_def connect_foreign_keys_def)

lemma fold_remove_other: "path \<notin> set ps \<Longrightarrow> fold os_remove_if_exists ps d path = d path"
  by (induction ps arbitrary: d) (auto simp: os_remove_if_exists_def)

lemma fold_remove_member: "path \<in> set ps \<Longrightarrow> fold os_remove_if_exists ps d path = None"
proof (induction ps arbitrary: d)
  case Nil then show ?case by simp
next
  case (Cons a ps)
  show ?case
  proof (cases "path \<in> set ps")
    case True with Cons.IH show ?thesis by simp
  next
    case False
    with Cons.prems have a: "path = a" by simp
    have "fold os_remove_if_exists (a # ps) d path = os_remove_if_exists a d path"
      using False by (simp add: fold_remove_other)
    also have "\<dots> = None"
      by (simp add: a os_remove_if_exists_def)
    finally show ?thesis .
  qed
qed

lemma delete_session_removes_files:
  "p \<in> set (session_photos (store w)) \<Longrightarrow> session_id p = sid \<Longrightarrow>
   disk (snd (delete_session w sid)) (file_path p) = None"
  by (auto simp: delete_session_def Let_def intro!: fold_remove_member)

text \<open>
  On a connection that enforces foreign keys the same statement would remove the photo
  rows of a deleted session.
\<close>

lemma sql_delete_session_cascade:
  "sid \<in> id_s ` set (sessions db) \<Longrightarrow>
   sid \<notin> session_id ` set (session_photos (sql_delete_session True sid db))"
  by (auto simp: sql_delete_session_def)

text \<open>
  C3 at a concrete world: session 1 owns two photo rows. After \<^verbatim>\<open>delete_session\<close> the
  session row is gone and both backing files are removed, but the two photo rows that
  reference session 1 are still in the store.
\<close>

theorem delete_session_leaves_photo_rows:
  "map session_id (session_photos (store (snd (delete_session example_world 1)))) = [1, 1, 4] \<and>
   map id_s (sessions (store (snd (delete_session example_world 1)))) = [2, 3, 4, 5] \<and>
   disk (snd (delete_session example_world 1)) (str ''uploads/photos/a1.png'') = None \<and>
   disk (snd (delete_session example_world 1)) (str ''uploads/photos/b2.png'') = None"
  by code_simp

text \<open>
  C9 at a concrete world: no session has the key 999, and \<^verbatim>\<open>delete_session\<close> answers
  with success and leaves the world as it was.
\<close>

theorem delete_session_unknown_id_succeeds:
  "delete_session example_world 999
     = (Ok_message (str ''Session deleted successfully''), example_world)"
  by (simp add: delete_session_def sql_delete_session_def example_world_def init_db_def
      sample_sessions_def sample_row_def photo_of_def Let_def)

subsection \<open>Uploading photos\<close>

text \<open>
  C8 at a concrete request: two files for session 1, the second one byte over the limit.
  The request fails with the size message and no photo row is added, the second file is
  removed, and the first file, written earlier in the same request, stays on the disk.
\<close>

theorem upload_photos_leaves_earlier_file:
  "fst (upload_photos example_uuid (str ''2025-01-18 08:00:00'') example_world 1
          (Some [FileStorage (str ''team.png'') 2048,
                 FileStorage (str ''pitch.png'') 5242881]))
     = Failure 400 [str ''File pitch.png is too large (max 5MB)''] \<and>
   disk (snd (upload_photos example_uuid (str ''2025-01-18 08:00:00'') example_world 1
          (Some [FileStorage (str ''team.png'') 2048,
                 FileStorage (str ''pitch.png'') 5242881])))
       (str ''uploads/photos/0f8fad5bd9cb469fa16570867728950e.png'') = Some 2048 \<and>
   disk (snd (upload_photos example_uuid (str ''2025-01-18 08:00:00'') example_world 1
          (Some [FileStorage (str ''team.png'') 2048,
                 FileStorage (str ''pitch.png'') 5242881])))
       (str ''uploads/photos/7c9e6679742540de944be07fc1f90ae7.png'') = None \<and>
   map filename (session_photos (store (snd
      (upload_photos example_uuid (str ''2025-01-18 08:00:00'') example_world 1
          (Some [FileStorage (str ''team.png'') 2048,
                 FileStorage (str ''pitch.png'') 5242881])))))
     = map str [''a1.png'', ''b2.png'', ''c3.png'']"
  by code_simp

section \<open>Properties of validation\<close>

text \<open>
  C2 at concrete requests: the valid example request with a number in place of a text.
  A number for \<open>school_name\<close> or \<open>activator\<close> raises \<^verbatim>\<open>AttributeError\<close> (a number has no
  \<^verbatim>\<open>strip\<close>), a number for \<open>teacher_feedback\<close> raises \<^verbatim>\<open>TypeError\<close> (it has no
  \<^verbatim>\<open>len\<close>), and so does a number for \<open>session_date\<close> (\<^verbatim>\<open>strptime\<close> wants a string):
  no list of messages is returned, and \<^verbatim>\<open>create_session\<close> answers 500.
\<close>

theorem validate_raises_on_wrong_type:
  "validate_session_data example_library 739300
     ((str ''school_name'', PInt 12345) # valid_example) = Inl AttributeError \<and>
   validate_session_data example_library 739300
     ((str ''activator'', PInt 7) # valid_example) = Inl AttributeError \<and>
   validate_session_data example_library 739300
     ((str ''teacher_feedback'', PInt 5) # valid_example) = Inl TypeError \<and>
   validate_session_data example_library 739300
     ((str ''session_date'', PInt 20250116) # valid_example) = Inl TypeError \<and>
   fst (create_session example_library 739300 (str ''2025-02-18 08:00:00'') init_db
          ((str ''school_name'', PInt 12345) # valid_example)) = Server_error AttributeError"
  by code_simp

text \<open>
  The rules of the numeric fields do turn a wrong type into a message: a list for a
  count, for the duration and for a coordinate.
\<close>

lemma validate_reports_wrong_type_of_numbers:
  "validate_session_data example_library 739300
     ((str ''male_participants'', PList [PInt 1]) # (str ''session_duration'', PList [PInt 1])
        # (str ''latitude'', PList [PInt 1]) # valid_example)
   = Inr (map str [''Male participants must be a valid number'',
                   ''Session duration must be a valid number'',
                   ''Latitude must be a valid number''])"
  by code_simp

subsection \<open>Required fields\<close>

lemma run_checks_Cons_Inr:
  "run_checks (Inr xs # cs) = Inr errs \<Longrightarrow> \<exists>rest. run_checks cs = Inr rest \<and> errs = xs @ rest"
  by (auto split: sum.splits)

text \<open>The messages of the required fields come first in every list that is returned.\<close>

lemma required_errors_first:
  "validate_session_data lib today data = Inr errs \<Longrightarrow>
   \<exists>rest. errs = required_errors data @ rest"
  unfolding validate_session_data_def by (blast dest: run_checks_Cons_Inr)

text \<open>
  The test of a required field holds for a value that Python reads as false, and for a
  string that is blank after trimming.
\<close>

lemma is_missing_iff:
  "is_missing v \<longleftrightarrow>
     v = PNone \<or> v = PBool False \<or> v = PInt 0 \<or> v = PFloat (Finite 0) \<or> v = PList [] \<or>
     v = PDict [] \<or> (\<exists>s. v = PStr s \<and> strip s = [])"
  by (cases v) (auto simp: is_missing_def strip_def)

lemma required_messages:
  "map required_message required_fields =
     map str [''School Name is required'', ''Session Type is required'',
      ''Location is required'', ''Activator is required'', ''Year Group is required'',
      ''Male Participants is required'', ''Female Participants is required'',
      ''Session Date is required'', ''Session Duration is required'']"
  by code_simp

text \<open>
  C5 at a concrete request: the valid example with the number 0 for
  \<open>male_participants\<close> (and 15 female participants). The field is present and its text
  \<^verbatim>\<open>'0'\<close> is not blank, yet the message of a missing field is emitted; the same count
  sent as the text \<^verbatim>\<open>'0'\<close> passes.
\<close>

theorem validate_requires_nonzero_number:
  "validate_session_data example_library 739300
     ((str ''male_participants'', PInt 0) # valid_example)
     = Inr [str ''Male Participants is required''] \<and>
   validate_session_data example_library 739300
     ((str ''male_participants'', PStr (str ''0'')) # valid_example) = Inr []"
  by code_simp

subsection \<open>Participant counts\<close>

lemma count_errors_unparsed:
  "py_int lib (dict_get_default data field (PInt 0)) = Inl e \<Longrightarrow> caught e \<Longrightarrow>
   count_errors lib data field label = Inr [str (label @ '' must be a valid number'')]"
  by (simp add: count_errors_def)

lemma count_errors_parsed:
  "py_int lib (dict_get_default data field (PInt 0)) = Inr n \<Longrightarrow>
   count_errors lib data field label =
     Inr ((if n < 0 then [str (label @ '' cannot be negative'')] else [])
          @ (if n > 1000 then [str (label @ '' seems too high (max 1000)'')] else []))"
  by (simp add: count_errors_def)

lemma total_errors_skipped:
  "py_int lib (dict_get_default data ''male_participants'' (PInt 0)) = Inl e \<Longrightarrow> caught e \<Longrightarrow>
   total_errors lib data = Inr []"
  "py_int lib (dict_get_default data ''male_participants'' (PInt 0)) = Inr m \<Longrightarrow>
   py_int lib (dict_get_default data ''female_participants'' (PInt 0)) = Inl e \<Longrightarrow>
   caught e \<Longrightarrow> total_errors lib data = Inr []"
  by (simp_all add: total_errors_def)

lemma count_boundaries:
  "validate_session_data example_library 739300
     ((str ''male_participants'', PInt 1000) # valid_example) = Inr []"
  "validate_session_data example_library 739300
     ((str ''male_participants'', PInt 1001) # valid_example)
     = Inr [str ''Male participants seems too high (max 1000)'']"
  "validate_session_data example_library 739300
     ((str ''male_participants'', PInt (- 1)) # valid_example)
     = Inr [str ''Male participants cannot be negative'']"
  "validate_session_data example_library 739300
     ((str ''male_participants'', PStr (str ''abc'')) # valid_example)
     = Inr [str ''Male participants must be a valid number'']"
  by code_simp+

text \<open>
  A count written with a control character in front (code 31, which \<^verbatim>\<open>strip\<close> takes for
  white space and \<^verbatim>\<open>int\<close> does not) is no number, and one written in fullwidth digits
  is.
\<close>

lemma count_texts:
  "validate_session_data example_library 739300
     ((str ''male_participants'', PStr [31, 55]) # valid_example)
     = Inr [str ''Male participants must be a valid number'']"
  "validate_session_data example_library 739300
     ((str ''male_participants'', PStr [65303]) # valid_example) = Inr []"
  by code_simp+

text \<open>
  C6 at a concrete request: the valid example with an infinite float for
  \<open>male_participants\<close> (the JSON number \<^verbatim>\<open>1e999\<close>). \<^verbatim>\<open>int\<close> raises
  \<^verbatim>\<open>OverflowError\<close>, which the rule does not catch: no message is emitted, and
  \<^verbatim>\<open>create_session\<close> answers 500.
\<close>

theorem validate_raises_on_infinite_count:
  "py_int example_library (PFloat PosInf) = Inl OverflowError \<and>
   validate_session_data example_library 739300
     ((str ''male_participants'', PFloat PosInf) # valid_example) = Inl OverflowError \<and>
   fst (create_session example_library 739300 (str ''2025-02-18 08:00:00'') init_db
          ((str ''male_participants'', PFloat PosInf) # valid_example))
     = Server_error OverflowError"
  by code_simp

section \<open>Properties of \<^verbatim>\<open>create_session\<close>\<close>

lemma run_checks_Inr_Nil:
  "run_checks cs = Inr [] \<Longrightarrow> list_all (\<lambda>c. c = Inr []) cs"
  by (induction cs) (auto split: sum.splits)

lemma truthy_dict_get:
  "truthy (dict_get data k) \<Longrightarrow> map_of data (str k) = Some (dict_get data k)"
  by (simp add: dict_get_def split: option.splits)

lemma dict_get_default_truthy:
  "truthy (dict_get data k) \<Longrightarrow> dict_get_default data k dflt = dict_get data k"
  by (simp add: dict_get_def dict_get_default_def split: option.splits)

lemma required_errors_Nil:
  assumes "required_errors data = []" and "field \<in> set required_fields"
  shows "truthy (dict_get data field)"
proof (rule ccontr)
  assume "\<not> truthy (dict_get data field)"
  then have "is_missing (dict_get data field)" by (simp add: is_missing_def)
  with assms(2) have "required_message field \<in> set (required_errors data)"
    by (auto simp: required_errors_def)
  with assms(1) show False by simp
qed

lemma text_errors_Nil:
  "text_errors data field rules = Inr [] \<Longrightarrow> truthy (dict_get data field) \<Longrightarrow>
   \<exists>s. dict_get data field = PStr s"
  by (auto simp: text_errors_def Let_def split: pyval.splits)

lemma item_strip_PStr:
  "truthy (dict_get data k) \<Longrightarrow> dict_get data k = PStr s \<Longrightarrow> item_strip data k = Inr (strip s)"
  using truthy_dict_get [of data k] by (simp add: item_strip_def)

lemma item_text_PStr:
  "truthy (dict_get data k) \<Longrightarrow> dict_get data k = PStr s \<Longrightarrow> item_text data k = Inr s"
  using truthy_dict_get [of data k] by (simp add: item_text_def)

lemma year_group_errors_Nil:
  "year_group_errors data = [] \<Longrightarrow> truthy (dict_get data ''year_group'') \<Longrightarrow>
   \<exists>s. dict_get data ''year_group'' = PStr s"
  by (auto simp: year_group_errors_def Let_def split: if_splits)

lemma count_errors_Nil:
  "count_errors lib data field label = Inr [] \<Longrightarrow>
   \<exists>n. py_int lib (dict_get_default data field (PInt 0)) = Inr n"
  by (auto simp: count_errors_def split: sum.splits if_splits)

lemma duration_errors_Nil:
  "duration_errors lib data = Inr [] \<Longrightarrow>
   \<exists>n. py_int lib (dict_get_default data ''session_duration'' (PInt 0)) = Inr n"
  by (auto simp: duration_errors_def split: sum.splits if_splits)

lemma item_int_truthy:
  "truthy (dict_get data k) \<Longrightarrow> item_int lib data k = py_int lib (dict_get data k)"
  using truthy_dict_get [of data k] by (simp add: item_int_def)

lemma date_errors_Nil:
  "date_errors lib today data = Inr [] \<Longrightarrow> truthy (dict_get data ''session_date'') \<Longrightarrow>
   \<exists>s d. dict_get data ''session_date'' = PStr s \<and> strptime_ymd lib s = Some d \<and>
          d \<le> today \<and> 737425 \<le> d"
  by (auto simp: date_errors_def Let_def split: pyval.splits option.splits if_splits)

lemma coordinate_errors_Nil:
  "coordinate_errors lib data field bound m1 m2 = Inr [] \<Longrightarrow>
   \<exists>r. optional_float lib data field = Inr r"
  by (auto simp: coordinate_errors_def optional_float_def Let_def split: sum.splits if_splits)

lemma utf8_encodable_strip: "utf8_encodable s \<Longrightarrow> utf8_encodable (strip s)"
  by (auto simp: utf8_encodable_def strip_def list_all_iff dest!: set_dropWhileD)

lemma texts_encodable_PStr:
  "texts_encodable data \<Longrightarrow> k \<in> set text_columns \<Longrightarrow> dict_get data k = PStr s \<Longrightarrow>
   utf8_encodable s"
  by (auto simp: texts_encodable_def text_is_encodable_def list_all_iff)

lemma bind_text_encodable: "utf8_encodable s \<Longrightarrow> bind_text s = Inr s"
  by (simp add: bind_text_def)

lemma feedback_binds:
  assumes "feedback_is_text data" and "texts_encodable data"
  shows "\<exists>fb. optional_feedback data = Inr fb \<and> bind_optional_text fb = Inr fb"
proof (cases "truthy (dict_get data ''teacher_feedback'')")
  case False
  then show ?thesis
    by (simp add: optional_feedback_def bind_optional_text_def)
next
  case True
  with assms(1) obtain s where s: "dict_get data ''teacher_feedback'' = PStr s"
    by (auto simp: feedback_is_text_def split: pyval.splits)
  from texts_encodable_PStr [OF assms(2) _ s] have "utf8_encodable s"
    by (simp add: text_columns_def)
  then have "utf8_encodable (strip s)" by (rule utf8_encodable_strip)
  with True s show ?thesis
    by (simp add: optional_feedback_def bind_optional_text_def)
qed

lemma next_key_fresh: "next_key seq ids \<notin> set ids"
proof -
  have bound: "a \<le> fold max ids a \<and> (\<forall>x \<in> set ids. x \<le> fold max ids a)" for a
  proof (induction ids arbitrary: a)
    case Nil
    show ?case by simp
  next
    case (Cons i ids)
    have 1: "max i a \<le> fold max ids (max i a)" using Cons.IH by blast
    have 2: "\<forall>x \<in> set ids. x \<le> fold max ids (max i a)" using Cons.IH by blast
    from 1 2 show ?case by auto
  qed
  show ?thesis
  proof
    assume "next_key seq ids \<in> set ids"
    with bound [of seq] have "next_key seq ids \<le> fold max ids seq" by blast
    then show False by (simp add: next_key_def)
  qed
qed

lemma validated_row:
  assumes v: "validate_session_data lib today data = Inr []"
    and fb: "feedback_is_text data"
    and enc: "texts_encodable data"
  shows "\<exists>sn st loc act yg m f sd dur fbv lat lng.
     dict_get data ''school_name'' = PStr sn \<and>
     dict_get data ''session_type'' = PStr st \<and>
     dict_get data ''location'' = PStr loc \<and>
     dict_get data ''activator'' = PStr act \<and>
     dict_get data ''year_group'' = PStr yg \<and>
     py_int lib (dict_get data ''male_participants'') = Inr m \<and>
     py_int lib (dict_get data ''female_participants'') = Inr f \<and>
     dict_get data ''session_date'' = PStr sd \<and>
     py_int lib (dict_get data ''session_duration'') = Inr dur \<and>
     optional_feedback data = Inr fbv \<and>
     optional_float lib data ''latitude'' = Inr lat \<and>
     optional_float lib data ''longitude'' = Inr lng \<and>
     new_session_row lib now key data =
       Inr \<lparr>id_s = key, school_name = strip sn, session_type = strip st, location = strip loc,
            activator = strip act, year_group = yg, male_participants = m,
            female_participants = f, teacher_feedback = fbv, session_date = sd,
            session_duration = Some dur, date_created = now, latitude = lat,
            longitude = lng\<rparr>"
proof -
  from run_checks_Inr_Nil [OF v [unfolded validate_session_data_def]]
  have req: "required_errors data = []"
    and c1: "text_errors data ''school_name'' (length_rules ''School name'' 100) = Inr []"
    and c2: "text_errors data ''session_type'' (length_rules ''Session type'' 50) = Inr []"
    and c3: "text_errors data ''location'' (length_rules ''Location'' 100) = Inr []"
    and c4: "text_errors data ''activator'' activator_rules = Inr []"
    and c5: "year_group_errors data = []"
    and c6: "count_errors lib data ''male_participants'' ''Male participants'' = Inr []"
    and c7: "count_errors lib data ''female_participants'' ''Female participants'' = Inr []"
    and c9: "duration_errors lib data = Inr []"
    and c10: "date_errors lib today data = Inr []"
    and c11: "coordinate_errors lib data ''latitude'' 90
          ''Latitude must be between -90 and 90'' ''Latitude must be a valid number'' = Inr []"
    and c12: "coordinate_errors lib data ''longitude'' 180
          ''Longitude must be between -180 and 180'' ''Longitude must be a valid number''
          = Inr []"
    by simp_all
  have t: "truthy (dict_get data ''school_name'')" "truthy (dict_get data ''session_type'')"
    "truthy (dict_get data ''location'')" "truthy (dict_get data ''activator'')"
    "truthy (dict_get data ''year_group'')" "truthy (dict_get data ''male_participants'')"
    "truthy (dict_get data ''female_participants'')" "truthy (dict_get data ''session_date'')"
    "truthy (dict_get data ''session_duration'')"
    by (rule required_errors_Nil [OF req], simp add: required_fields_def)+
  from text_errors_Nil [OF c1 t(1)] obtain sn
    where sn: "dict_get data ''school_name'' = PStr sn" ..
  from text_errors_Nil [OF c2 t(2)] obtain st
    where st: "dict_get data ''session_type'' = PStr st" ..
  from text_errors_Nil [OF c3 t(3)] obtain loc
    where loc: "dict_get data ''location'' = PStr loc" ..
  from text_errors_Nil [OF c4 t(4)] obtain act
    where act: "dict_get data ''activator'' = PStr act" ..
  from year_group_errors_Nil [OF c5 t(5)] obtain yg
    where yg: "dict_get data ''year_group'' = PStr yg" ..
  from count_errors_Nil [OF c6] obtain m
    where "py_int lib (dict_get_default data ''male_participants'' (PInt 0)) = Inr m" ..
  then have m: "py_int lib (dict_get data ''male_participants'') = Inr m"
    by (simp add: dict_get_default_truthy [OF t(6)])
  from count_errors_Nil [OF c7] obtain f
    where "py_int lib (dict_get_default data ''female_participants'' (PInt 0)) = Inr f" ..
  then have f: "py_int lib (dict_get data ''female_participants'') = Inr f"
    by (simp add: dict_get_default_truthy [OF t(7)])
  from duration_errors_Nil [OF c9] obtain dur
    where "py_int lib (dict_get_default data ''session_duration'' (PInt 0)) = Inr dur" ..
  then have dur: "py_int lib (dict_get data ''session_duration'') = Inr dur"
    by (simp add: dict_get_default_truthy [OF t(9)])
  from date_errors_Nil [OF c10 t(8)] obtain sd
    where sd: "dict_get data ''session_date'' = PStr sd" by blast
  from coordinate_errors_Nil [OF c11] obtain lat
    where lat: "optional_float lib data ''latitude'' = Inr lat" ..
  from coordinate_errors_Nil [OF c12] obtain lng
    where lng: "optional_float lib data ''longitude'' = Inr lng" ..
  from feedback_binds [OF fb enc] obtain fbv
    where fbv: "optional_feedback data = Inr fbv" "bind_optional_text fbv = Inr fbv"
    by blast
  have b: "bind_text (strip sn) = Inr (strip sn)" "bind_text (strip st) = Inr (strip st)"
    "bind_text (strip loc) = Inr (strip loc)" "bind_text (strip act) = Inr (strip act)"
    "bind_text yg = Inr yg" "bind_text sd = Inr sd"
    using texts_encodable_PStr [OF enc _ sn] texts_encodable_PStr [OF enc _ st]
      texts_encodable_PStr [OF enc _ loc] texts_encodable_PStr [OF enc _ act]
      texts_encodable_PStr [OF enc _ yg] texts_encodable_PStr [OF enc _ sd]
    by (simp_all add: text_columns_def bind_text_encodable utf8_encodable_strip)
  have "new_session_row lib now key data =
       Inr \<lparr>id_s = key, school_name = strip sn, session_type = strip st, location = strip loc,
            activator = strip act, year_group = yg, male_participants = m,
            female_participants = f, teacher_feedback = fbv, session_date = sd,
            session_duration = Some dur, date_created = now, latitude = lat,
            longitude = lng\<rparr>"
    unfolding new_session_row_def
    by (simp add: bind_exn_def item_strip_PStr [OF t(1) sn] item_strip_PStr [OF t(2) st]
        item_strip_PStr [OF t(3) loc] item_strip_PStr [OF t(4) act]
        item_text_PStr [OF t(5) yg] item_text_PStr [OF t(8) sd]
        item_int_truthy [OF t(6)] item_int_truthy [OF t(7)] item_int_truthy [OF t(9)]
        m f dur lat lng fbv b)
  with sn st loc act yg m f sd dur fbv(1) lat lng show ?thesis by simp
qed

text \<open>
  C4, as stated, fails on the empty mapping: validation returns eleven messages for it,
  and \<^verbatim>\<open>create_session\<close> answers with the single message of its own guard.
\<close>

theorem create_session_empty_mapping:
  "validate_session_data example_library 739300 [] =
     Inr (map str [''School Name is required'', ''Session Type is required'',
          ''Location is required'', ''Activator is required'', ''Year Group is required'',
          ''Male Participants is required'', ''Female Participants is required'',
          ''Session Date is required'', ''Session Duration is required'',
          ''Total participants must be greater than 0'',
          ''Session duration must be greater than 0 minutes'']) \<and>
   create_session example_library 739300 (str ''2025-02-18 08:00:00'') init_db []
     = (Failure 400 [str ''No data provided''], init_db)"
proof -
  have "validate_session_data example_library 739300 [] =
     Inr (map str [''School Name is required'', ''Session Type is required'',
          ''Location is required'', ''Activator is required'', ''Year Group is required'',
          ''Male Participants is required'', ''Female Participants is required'',
          ''Session Date is required'', ''Session Duration is required'',
          ''Total participants must be greater than 0'',
          ''Session duration must be greater than 0 minutes''])"
    by code_simp
  moreover have "create_session example_library 739300 (str ''2025-02-18 08:00:00'') init_db []
     = (Failure 400 [str ''No data provided''], init_db)"
    by (simp add: create_session_def)
  ultimately show ?thesis by simp
qed

text \<open>
  C4, amended: for every mapping that is not empty and on which validation returns a
  list of messages that is not empty, \<^verbatim>\<open>create_session\<close> leaves the store as it was and
  answers 400 with exactly that list; the empty mapping is answered 400 with
  \<^verbatim>\<open>No data provided\<close>, the store unchanged; and for every mapping on which validation
  returns the empty list, whose optional feedback is absent, empty or a string, and whose
  texts hold no surrogate code point, exactly one row is appended, under a fresh key
  that the answer carries, holding the converted fields of the request.
\<close>

theorem create_session_all_or_nothing:
  "(data \<noteq> [] \<and> validate_session_data lib today data = Inr errs \<and> errs \<noteq> []
      \<longrightarrow> create_session lib today now db data = (Failure 400 errs, db)) \<and>
   create_session lib today now db [] = (Failure 400 [str ''No data provided''], db) \<and>
   (validate_session_data lib today data = Inr [] \<and> feedback_is_text data \<and>
    texts_encodable data
      \<longrightarrow> (\<exists>row sn st loc act yg sd.
            create_session lib today now db data
              = (Ok_session (str ''Session recorded successfully'') (id_s row),
                 db\<lparr>sessions := sessions db @ [row], sessions_seq := id_s row\<rparr>) \<and>
            id_s row \<notin> set (map id_s (sessions db)) \<and>
            dict_get data ''school_name'' = PStr sn \<and> school_name row = strip sn \<and>
            dict_get data ''session_type'' = PStr st \<and> session_type row = strip st \<and>
            dict_get data ''location'' = PStr loc \<and> location row = strip loc \<and>
            dict_get data ''activator'' = PStr act \<and> activator row = strip act \<and>
            dict_get data ''year_group'' = PStr yg \<and> year_group row = yg \<and>
            py_int lib (dict_get data ''male_participants'')
              = Inr (male_participants row) \<and>
            py_int lib (dict_get data ''female_participants'')
              = Inr (female_participants row) \<and>
            dict_get data ''session_date'' = PStr sd \<and> session_date row = sd \<and>
            map_option Inr (session_duration row)
              = Some (py_int lib (dict_get data ''session_duration'')) \<and>
            optional_feedback data = Inr (teacher_feedback row) \<and>
            optional_float lib data ''latitude'' = Inr (latitude row) \<and>
            optional_float lib data ''longitude'' = Inr (longitude row) \<and>
            date_created row = now))"
proof (intro conjI impI)
  assume "data \<noteq> [] \<and> validate_session_data lib today data = Inr errs \<and> errs \<noteq> []"
  then show "create_session lib today now db data = (Failure 400 errs, db)"
    by (simp add: create_session_def)
next
  show "create_session lib today now db [] = (Failure 400 [str ''No data provided''], db)"
    by (simp add: create_session_def)
next
  assume a: "validate_session_data lib today data = Inr [] \<and> feedback_is_text data \<and>
    texts_encodable data"
  let ?key = "next_key (sessions_seq db) (map id_s (sessions db))"
  from a have v: "validate_session_data lib today data = Inr []"
    and fb: "feedback_is_text data" and enc: "texts_encodable data" by simp_all
  from validated_row [OF v fb enc, of now ?key]
  obtain sn st loc act yg m f sd dur fbv lat lng where
    facts: "dict_get data ''school_name'' = PStr sn"
     "dict_get data ''session_type'' = PStr st"
     "dict_get data ''location'' = PStr loc"
     "dict_get data ''activator'' = PStr act"
     "dict_get data ''year_group'' = PStr yg"
     "py_int lib (dict_get data ''male_participants'') = Inr m"
     "py_int lib (dict_get data ''female_participants'') = Inr f"
     "dict_get data ''session_date'' = PStr sd"
     "py_int lib (dict_get data ''session_duration'') = Inr dur"
     "optional_feedback data = Inr fbv"
     "optional_float lib data ''latitude'' = Inr lat"
     "optional_float lib data ''longitude'' = Inr lng"
    and row: "new_session_row lib now ?key data =
       Inr \<lparr>id_s = ?key, school_name = strip sn, session_type = strip st, location = strip loc,
            activator = strip act, year_group = yg, male_participants = m,
            female_participants = f, teacher_feedback = fbv, session_date = sd,
            session_duration = Some dur, date_created = now, latitude = lat,
            longitude = lng\<rparr>"
    by blast
  let ?row = "\<lparr>id_s = ?key, school_name = strip sn, session_type = strip st,
            location = strip loc,
            activator = strip act, year_group = yg, male_participants = m,
            female_participants = f, teacher_feedback = fbv, session_date = sd,
            session_duration = Some dur, date_created = now, latitude = lat,
            longitude = lng\<rparr>"
  have ne: "data \<noteq> []"
    using facts(1) by (auto simp: dict_get_def)
  have res: "create_session lib today now db data
              = (Ok_session (str ''Session recorded successfully'') (id_s ?row),
                 db\<lparr>sessions := sessions db @ [?row], sessions_seq := id_s ?row\<rparr>)"
    using ne by (simp add: create_session_def v row)
  have fresh: "id_s ?row \<notin> set (map id_s (sessions db))"
    using next_key_fresh [of "sessions_seq db" "map id_s (sessions db)"] by simp
  show "\<exists>row sn st loc act yg sd.
            create_session lib today now db data
              = (Ok_session (str ''Session recorded successfully'') (id_s row),
                 db\<lparr>sessions := sessions db @ [row], sessions_seq := id_s row\<rparr>) \<and>
            id_s row \<notin> set (map id_s (sessions db)) \<and>
            dict_get data ''school_name'' = PStr sn \<and> school_name row = strip sn \<and>
            dict_get data ''session_type'' = PStr st \<and> session_type row = strip st \<and>
            dict_get data ''location'' = PStr loc \<and> location row = strip loc \<and>
            dict_get data ''activator'' = PStr act \<and> activator row = strip act \<and>
            dict_get data ''year_group'' = PStr yg \<and> year_group row = yg \<and>
            py_int lib (dict_get data ''male_participants'')
              = Inr (male_participants row) \<and>
            py_int lib (dict_get data ''female_participants'')
              = Inr (female_participants row) \<and>
            dict_get data ''session_date'' = PStr sd \<and> session_date row = sd \<and>
            map_option Inr (session_duration row)
              = Some (py_int lib (dict_get data ''session_duration'')) \<and>
            optional_feedback data = Inr (teacher_feedback row) \<and>
            optional_float lib data ''latitude'' = Inr (latitude row) \<and>
            optional_float lib data ''longitude'' = Inr (longitude row) \<and>
            date_created row = now"
    apply (rule exI [of _ ?row])
    apply (rule exI [of _ sn], rule exI [of _ st], rule exI [of _ loc], rule exI [of _ act],
        rule exI [of _ yg], rule exI [of _ sd])
    using res fresh facts by simp
qed

lemma valid_example_passes:
  "validate_session_data example_library 739300 valid_example = Inr []"
  by code_simp

lemma invalid_example_fails:
  "validate_session_data example_library 739300
     ((str ''school_name'', PStr (str ''K'')) # (str ''male_participants'', PStr (str ''abc''))
        # valid_example)
   = Inr [str ''School name must be at least 2 characters long'',
          str ''Male participants must be a valid number'']"
  by code_simp

lemma valid_example_fields:
  "dict_get valid_example ''school_name'' = PStr (str ''Karori School'')"
  "dict_get valid_example ''location'' = PStr (str '' Main Hall '')"
  "dict_get valid_example ''session_date'' = PStr (str ''2025-01-16'')"
  "py_int example_library (dict_get valid_example ''male_participants'') = Inr 12"
  "py_int example_library (dict_get valid_example ''female_participants'') = Inr 15"
  "strip (str ''Karori School'') = str ''Karori School''"
  "strip (str '' Main Hall '') = str ''Main Hall''"
  "feedback_is_text valid_example"
  "texts_encodable valid_example"
  by code_simp+

theorem create_session_all_or_nothing_witness:
  "create_session example_library 739300 (str ''2025-02-18 08:00:00'') init_db
     ((str ''school_name'', PStr (str ''K'')) # (str ''male_participants'', PStr (str ''abc''))
        # valid_example)
     = (Failure 400 [str ''School name must be at least 2 characters long'',
                     str ''Male participants must be a valid number''], init_db) \<and>
   (\<exists>row. create_session example_library 739300 (str ''2025-02-18 08:00:00'') init_db
             valid_example
           = (Ok_session (str ''Session recorded successfully'') (id_s row),
              init_db\<lparr>sessions := sessions init_db @ [row], sessions_seq := id_s row\<rparr>) \<and>
          school_name row = str ''Karori School'' \<and> location row = str ''Main Hall'' \<and>
          male_participants row = 12 \<and> female_participants row = 15 \<and>
          session_date row = str ''2025-01-16'')"
proof -
  let ?bad = "(str ''school_name'', PStr (str ''K''))
                # (str ''male_participants'', PStr (str ''abc'')) # valid_example"
  let ?errs = "[str ''School name must be at least 2 characters long'',
                str ''Male participants must be a valid number'']"
  let ?now = "str ''2025-02-18 08:00:00''"
  have h1: "?bad \<noteq> [] \<and>
      validate_session_data example_library 739300 ?bad = Inr ?errs \<and> ?errs \<noteq> []"
    by (simp add: invalid_example_fails)
  have first: "create_session example_library 739300 ?now init_db ?bad
      = (Failure 400 ?errs, init_db)"
    using create_session_all_or_nothing
      [where data = ?bad and lib = example_library and today = 739300
         and errs = ?errs and now = ?now and db = init_db]
      h1 by blast
  have h3: "validate_session_data example_library 739300 valid_example = Inr [] \<and>
      feedback_is_text valid_example \<and> texts_encodable valid_example"
    by (simp add: valid_example_passes valid_example_fields)
  from create_session_all_or_nothing
      [where data = valid_example and lib = example_library
         and today = 739300 and now = ?now and db = init_db]
    h3
  obtain row sn loc sd where
    res: "create_session example_library 739300 ?now init_db valid_example
           = (Ok_session (str ''Session recorded successfully'') (id_s row),
              init_db\<lparr>sessions := sessions init_db @ [row], sessions_seq := id_s row\<rparr>)"
    and sn: "dict_get valid_example ''school_name'' = PStr sn" "school_name row = strip sn"
    and loc: "dict_get valid_example ''location'' = PStr loc" "location row = strip loc"
    and m: "py_int example_library (dict_get valid_example ''male_participants'')
              = Inr (male_participants row)"
    and f: "py_int example_library (dict_get valid_example ''female_participants'')
              = Inr (female_participants row)"
    and sd: "dict_get valid_example ''session_date'' = PStr sd" "session_date row = sd"
    by blast
  from sn(1) have "sn = str ''Karori School''"
    by (simp add: valid_example_fields)
  with sn(2) have 1: "school_name row = str ''Karori School''"
    by (simp add: valid_example_fields)
  from loc(1) have "loc = str '' Main Hall ''"
    by (simp add: valid_example_fields)
  with loc(2) have 2: "location row = str ''Main Hall''"
    by (simp add: valid_example_fields)
  from m have 3: "male_participants row = 12"
    by (simp add: valid_example_fields)
  from f have 4: "female_participants row = 15"
    by (simp add: valid_example_fields)
  from sd have 5: "session_date row = str ''2025-01-16''"
    by (simp add: valid_example_fields)
  from res 1 2 3 4 5 first show ?thesis by blast
qed

text \<open>
  Two requests that pass validation and are answered 500, nothing stored. A list in
  place of the optional feedback has a length and no \<^verbatim>\<open>strip\<close>; a school name with a
  lone surrogate (the JSON text \<^verbatim>\<open>"ab\ud800"\<close>) cannot be bound to the statement.
\<close>

lemma create_session_feedback_list:
  "validate_session_data example_library 739300
     ((str ''teacher_feedback'', PList [PStr (str ''Good'')]) # valid_example) = Inr [] \<and>
   create_session example_library 739300 (str ''2025-02-18 08:00:00'') init_db
     ((str ''teacher_feedback'', PList [PStr (str ''Good'')]) # valid_example)
     = (Server_error AttributeError, init_db)"
  by code_simp

lemma create_session_lone_surrogate:
  "validate_session_data example_library 739300
     ((str ''school_name'', PStr (str ''ab'' @ [55296])) # valid_example) = Inr [] \<and>
   create_session example_library 739300 (str ''2025-02-18 08:00:00'') init_db
     ((str ''school_name'', PStr (str ''ab'' @ [55296])) # valid_example)
     = (Server_error UnicodeEncodeError, init_db)"
  by code_simp

subsection \<open>The primary key\<close>

lemma init_db_distinct: "distinct (map id_s (sessions init_db))"
  by (simp add: init_db_def sample_sessions_def sample_row_def)

lemma create_session_distinct:
  assumes "distinct (map id_s (sessions db))"
  shows "distinct (map id_s (sessions (snd (create_session lib today now db data))))"
proof -
  have key: "new_session_row lib now key data = Inr row \<Longrightarrow> id_s row = key"
    for key row
    by (auto simp: new_session_row_def bind_exn_def split: sum.splits)
  let ?key = "next_key (sessions_seq db) (map id_s (sessions db))"
  have fresh: "?key \<notin> set (map id_s (sessions db))"
    by (rule next_key_fresh)
  show ?thesis
  proof (cases "new_session_row lib now ?key data")
    case (Inl e)
    with assms show ?thesis
      by (simp add: create_session_def split: sum.splits)
  next
    case (Inr row)
    from key [OF Inr] fresh have "id_s row \<notin> set (map id_s (sessions db))"
      by simp
    with assms Inr show ?thesis
      by (simp add: create_session_def split: sum.splits)
  qed
qed

lemma delete_session_distinct:
  "distinct (map id_s (sessions (store w))) \<Longrightarrow>
   distinct (map id_s (sessions (store (snd (delete_session w sid)))))"
  by (simp add: delete_session_def Let_def sql_delete_session_def distinct_map_filter)

end
